theory Spec2Isabelle
  imports Complex_Main "HOL-Library.Word"
begin

section \<open>JavaScript strings and numbers\<close>

text \<open>
  Strings are lists of 8-bit characters, read as the code points U+0000 to U+00FF.
  Within that range \<open>String.prototype.toLowerCase\<close> maps A-Z and the Latin-1 capitals
  (U+00C0 to U+00DE without the multiplication sign U+00D7) to the letter 32 places up,
  and \<open>String.prototype.trim\<close> removes TAB, LF, VT, FF, CR, SPACE and NBSP.
\<close>

definition is_upper :: "char \<Rightarrow> bool" where
  "is_upper c = (let n = (of_char c :: nat) in
     (65 \<le> n \<and> n \<le> 90) \<or> (192 \<le> n \<and> n \<le> 222 \<and> n \<noteq> 215))"

definition lower_char :: "char \<Rightarrow> char" where
  "lower_char c = (if is_upper c then char_of ((of_char c :: nat) + 32) else c)"

definition toLowerCase :: "string \<Rightarrow> string" where
  "toLowerCase s = map lower_char s"

definition is_space :: "char \<Rightarrow> bool" where
  "is_space c = (let n = (of_char c :: nat) in
     n = 9 \<or> n = 10 \<or> n = 11 \<or> n = 12 \<or> n = 13 \<or> n = 32 \<or> n = 160)"

definition trim :: "string \<Rightarrow> string" where
  "trim s = rev (dropWhile is_space (rev (dropWhile is_space s)))"

text \<open>\<open>s.split(sep)\<close> for a one-character separator: always at least one piece.\<close>

fun js_split :: "char \<Rightarrow> string \<Rightarrow> string list" where
  "js_split sep [] = [[]]"
| "js_split sep (x # xs) =
     (if x = sep then [] # js_split sep xs
      else (case js_split sep xs of
              [] \<Rightarrow> [[x]]
            | l # ls \<Rightarrow> (x # l) # ls))"

text \<open>Decimal rendering of a non-negative integer, as template literals print it.\<close>

definition digit_char :: "nat \<Rightarrow> char" where
  "digit_char d = char_of (48 + d)"

fun decimal :: "nat \<Rightarrow> string" where
  "decimal n = (if n < 10 then [digit_char n] else decimal (n div 10) @ [digit_char (n mod 10)])"

declare decimal.simps [simp del]

definition decimal_int :: "int \<Rightarrow> string" where
  "decimal_int i = (if i < 0 then CHR ''-'' # decimal (nat (- i)) else decimal (nat i))"

text \<open>
  A JavaScript number, as far as this development tracks it: \<open>NaN\<close>, an integer of
  magnitude at most \<open>2 ^ 53\<close> (where double arithmetic on integers is exact), or
  \<open>Untracked\<close> for any other double. Nothing is proved about \<open>Untracked\<close> values.
\<close>

datatype jsnum = NaN | Num int | Untracked

definition to_num :: "int \<Rightarrow> jsnum" where
  "to_num v = (if \<bar>v\<bar> \<le> 2 ^ 53 then Num v else Untracked)"

fun js_add :: "jsnum \<Rightarrow> jsnum \<Rightarrow> jsnum" where
  "js_add (Num a) (Num b) = to_num (a + b)"
| "js_add NaN _ = NaN"
| "js_add _ NaN = NaN"
| "js_add _ _ = Untracked"

fun js_sub :: "jsnum \<Rightarrow> jsnum \<Rightarrow> jsnum" where
  "js_sub (Num a) (Num b) = to_num (a - b)"
| "js_sub NaN _ = NaN"
| "js_sub _ NaN = NaN"
| "js_sub _ _ = Untracked"

fun js_mul :: "jsnum \<Rightarrow> jsnum \<Rightarrow> jsnum" where
  "js_mul (Num a) (Num b) = to_num (a * b)"
| "js_mul NaN _ = NaN"
| "js_mul _ NaN = NaN"
| "js_mul _ _ = Untracked"

text \<open>
  \<open>parseInt(string)\<close> with no radix (ECMAScript 19.2.5): leading white space is skipped,
  a sign is read, a \<open>0x\<close> or \<open>0X\<close> prefix selects radix 16, and the longest prefix of
  digits of the radix is the value; with no digit the result is \<open>NaN\<close>.
\<close>

definition digit_of :: "char \<Rightarrow> nat option" where
  "digit_of c = (let n = (of_char c :: nat) in
     if 48 \<le> n \<and> n \<le> 57 then Some (n - 48)
     else if 97 \<le> n \<and> n \<le> 122 then Some (n - 87)
     else if 65 \<le> n \<and> n \<le> 90 then Some (n - 55)
     else None)"

definition is_radix_digit :: "nat \<Rightarrow> char \<Rightarrow> bool" where
  "is_radix_digit r c = (case digit_of c of None \<Rightarrow> False | Some d \<Rightarrow> d < r)"

definition radix_value :: "nat \<Rightarrow> string \<Rightarrow> nat" where
  "radix_value r z = foldl (\<lambda>a c. a * r + (case digit_of c of None \<Rightarrow> 0 | Some d \<Rightarrow> d)) 0 z"

definition parseInt :: "string \<Rightarrow> jsnum" where
  "parseInt string =
     (let s = dropWhile is_space string;
          neg = (take 1 s = ''-'');
          s1 = (if take 1 s = ''-'' \<or> take 1 s = ''+'' then drop 1 s else s);
          hex = (take 2 s1 = ''0x'' \<or> take 2 s1 = ''0X'');
          r = (if hex then 16 else 10);
          s2 = (if hex then drop 2 s1 else s1);
          z = takeWhile (is_radix_digit r) s2
      in if z = [] then NaN
         else to_num ((if neg then - 1 else 1) * int (radix_value r z)))"

section \<open>Configuration and start-up validation\<close>

text \<open>
  Lines 19 to 38 of both scripts. \<open>process.env\<close> gives each variable as a string or
  \<open>undefined\<close> (\<open>None\<close>). The two lists are read first: \<open>undefined.split\<close> is an
  uncaught \<open>TypeError\<close>, which ends the process with status 1.
\<close>

record http_response =
  data_message :: "string option"
  data_json :: string
  data_json_indented :: string

record js_error =
  message :: string
  response :: "http_response option"

record environment =
  env_OPENSEA_API_KEY :: "string option"
  env_RPC_URL :: "string option"
  env_TARGET_CONTRACT_ADDRESS :: "string option"
  env_LISTING_PRICE_IN_ETH :: "string option"
  env_LISTING_DURATION_MINUTES :: "string option"
  env_WALLETS :: "string option"
  env_PRIVATE_KEYS :: "string option"

record config =
  OPENSEA_API_KEY :: string
  RPC_URL :: string
  TARGET_CONTRACT_ADDRESS :: string
  LISTING_PRICE_IN_ETH :: string
  LISTING_DURATION_MINUTES :: string
  WALLETS :: "string list"
  PRIVATE_KEYS :: "string list"

definition parse_lines :: "string \<Rightarrow> string list" where
  "parse_lines s = filter (\<lambda>line. line \<noteq> []) (map trim (js_split (CHR 0x0A) s))"

definition falsy :: "string option \<Rightarrow> bool" where
  "falsy v = (case v of None \<Rightarrow> True | Some s \<Rightarrow> s = [])"

definition str_of :: "string option \<Rightarrow> string" where
  "str_of v = (case v of None \<Rightarrow> [] | Some s \<Rightarrow> s)"

datatype startup = Uncaught js_error | Exited nat string | Started config

definition split_of_undefined :: js_error where
  "split_of_undefined =
     \<lparr>message = ''Cannot read properties of undefined (reading 'split')'', response = None\<rparr>"

definition missing_variables :: string where
  "missing_variables =
     ''ERROR: Please ensure all required environment variables are set in your GitHub Secrets.''"

definition length_mismatch :: "nat \<Rightarrow> nat \<Rightarrow> string" where
  "length_mismatch nw nk =
     ''ERROR: The number of wallet addresses ('' @ decimal nw @
     '') does not match the number of private keys ('' @ decimal nk @ '').''"

definition validate :: "environment \<Rightarrow> startup" where
  "validate env =
     (case env_WALLETS env of
        None \<Rightarrow> Uncaught split_of_undefined
      | Some ws \<Rightarrow>
     (case env_PRIVATE_KEYS env of
        None \<Rightarrow> Uncaught split_of_undefined
      | Some ks \<Rightarrow>
          if falsy (env_OPENSEA_API_KEY env) \<or> falsy (env_RPC_URL env)
             \<or> falsy (env_TARGET_CONTRACT_ADDRESS env) \<or> falsy (env_LISTING_PRICE_IN_ETH env)
             \<or> falsy (env_LISTING_DURATION_MINUTES env)
          then Exited 1 missing_variables
          else if length (parse_lines ws) \<noteq> length (parse_lines ks)
          then Exited 1 (length_mismatch (length (parse_lines ws)) (length (parse_lines ks)))
          else Started
            \<lparr>OPENSEA_API_KEY = str_of (env_OPENSEA_API_KEY env),
             RPC_URL = str_of (env_RPC_URL env),
             TARGET_CONTRACT_ADDRESS = str_of (env_TARGET_CONTRACT_ADDRESS env),
             LISTING_PRICE_IN_ETH = str_of (env_LISTING_PRICE_IN_ETH env),
             LISTING_DURATION_MINUTES = str_of (env_LISTING_DURATION_MINUTES env),
             WALLETS = parse_lines ws,
             PRIVATE_KEYS = parse_lines ks\<rparr>))"

section \<open>Effects: a trace of events and a thrown error\<close>

text \<open>
  A computation yields the events it caused, in order, and either a thrown error
  (\<open>Inl\<close>) or its value. \<open>LogToFile m\<close> is one call \<open>logToFile(m)\<close>: the sink writes
  the line \<open>[timestamp] m\<close>. Console output and the log sink are taken not to fail.
\<close>

datatype json =
    JString string
  | JNumber jsnum
  | JArray "json list"
  | JObject "(string \<times> json) list"

type_synonym headers = "(string \<times> string) list"

datatype event =
    ConsoleLog string
  | ConsoleError string
  | LogToFile string
  | HttpGet string headers
  | HttpPost string json headers
  | SetTimeout nat

type_synonym 'a io = "event list \<times> (js_error + 'a)"

definition ret :: "'a \<Rightarrow> 'a io" where
  "ret x = ([], Inr x)"

definition lift :: "js_error + 'a \<Rightarrow> 'a io" where
  "lift r = ([], r)"

definition emit :: "event \<Rightarrow> unit io" where
  "emit e = ([e], Inr ())"

definition bind :: "'a io \<Rightarrow> ('a \<Rightarrow> 'b io) \<Rightarrow> 'b io" where
  "bind m f =
     (case m of
        (ev, Inl e) \<Rightarrow> (ev, Inl e)
      | (ev, Inr x) \<Rightarrow> (case f x of (ev', r) \<Rightarrow> (ev @ ev', r)))"

definition try_catch :: "'a io \<Rightarrow> (js_error \<Rightarrow> 'a io) \<Rightarrow> 'a io" where
  "try_catch m handler =
     (case m of
        (ev, Inl e) \<Rightarrow> (case handler e of (ev', r) \<Rightarrow> (ev @ ev', r))
      | (ev, Inr x) \<Rightarrow> (ev, Inr x))"

fun for_each :: "'a list \<Rightarrow> ('a \<Rightarrow> unit io) \<Rightarrow> unit io" where
  "for_each [] body = ret ()"
| "for_each (x # xs) body = bind (body x) (\<lambda>_. for_each xs body)"

definition logToFile :: "string \<Rightarrow> unit io" where
  "logToFile m = emit (LogToFile m)"

definition console_log :: "string \<Rightarrow> unit io" where
  "console_log m = emit (ConsoleLog m)"

definition console_error :: "string \<Rightarrow> unit io" where
  "console_error m = emit (ConsoleError m)"

section \<open>The outside world\<close>

record nft =
  contract :: string
  identifier' :: string
  name :: "string option"

record wallet =
  address :: string
  signingKey :: "string option"

text \<open>
  What one call of \<open>listNFT\<close> meets: the clock (\<open>Date.now()\<close>, milliseconds), the
  random source, the signer and the marketplace's answer to the POST. A signing or
  transport failure is an \<open>Inl\<close>; a non-2xx answer is an \<open>Inl\<close> carrying a response.
\<close>

record call_env =
  date_now :: nat
  randomBytes :: "nat \<Rightarrow> 8 word list"
  signTypedData :: "wallet \<Rightarrow> json \<Rightarrow> json \<Rightarrow> json \<Rightarrow> js_error + string"
  axios_post :: "string \<Rightarrow> json \<Rightarrow> headers \<Rightarrow> js_error + unit"

text \<open>
  What a run meets: \<open>new ethers.Wallet\<close> (which throws on a key it rejects),
  the answer to the holdings query of the wallet at each index (a failed request, or
  an answer without a list of tokens, on which line 182 throws inside the guard, is an
  \<open>Inl\<close>), the
  environment of the listing call for token \<open>j\<close> of wallet \<open>i\<close>, and the chain's
  Seaport counter of each offerer, which no line of either script reads.
\<close>

record world =
  new_Wallet :: "string option \<Rightarrow> string \<Rightarrow> js_error + string"
  axios_get :: "nat \<Rightarrow> string \<Rightarrow> headers \<Rightarrow> js_error + nft list"
  listing_env :: "nat \<Rightarrow> nat \<Rightarrow> call_env"
  getCounter :: "string \<Rightarrow> nat"

section \<open>Constants\<close>

definition OPENSEA_API_BASE_URL :: string where
  "OPENSEA_API_BASE_URL = ''https://api.opensea.io/v2''"

definition CHAIN :: string where
  "CHAIN = ''base''"

definition CHAIN_ID :: int where
  "CHAIN_ID = 8453"

definition SEAPORT_CONTRACT_ADDRESS :: string where
  "SEAPORT_CONTRACT_ADDRESS = ''0x00000000000001ad428e4906ae43d8f9852d0dd6''"

definition zero_address :: string where
  "zero_address = ''0x0000000000000000000000000000000000000000''"

definition zero_hash :: string where
  "zero_hash = ''0x0000000000000000000000000000000000000000000000000000000000000000''"

definition conduit_key :: string where
  "conduit_key = ''0x0000007b02230091a7ed01230072f706a00400000000000000000000000000''"

section \<open>Price conversion\<close>

definition is_dec_digit :: "char \<Rightarrow> bool" where
  "is_dec_digit c = (let n = (of_char c :: nat) in 48 \<le> n \<and> n \<le> 57)"

definition dec_val :: "string \<Rightarrow> nat" where
  "dec_val z = foldl (\<lambda>a c. a * 10 + ((of_char c :: nat) - 48)) 0 z"

definition strip_zeros :: "string \<Rightarrow> string" where
  "strip_zeros f = rev (dropWhile (\<lambda>c. c = CHR ''0'') (rev f))"

definition error :: "string \<Rightarrow> js_error" where
  "error m = \<lparr>message = m, response = None\<rparr>"

text \<open>
  Modelled from the spec: \<open>ethers.utils.parseEther\<close>, a function of the ethers
  library that \<open>listNFT\<close> calls; its source is not part of the repository. The spec
  says it converts the decimal ETH string to the chain's minimal unit (18 decimal
  places) with no loss of precision, and rejects a fraction finer than that instead of
  truncating it. The accepted text is an optional minus sign, then digits with at most
  one decimal point (not the point alone); trailing zeros of the fraction carry no
  precision.
\<close>

definition parseEther :: "string \<Rightarrow> js_error + int" where
  "parseEther ether =
     (let negative = (take 1 ether = ''-'');
          v = (if negative then drop 1 ether else ether);
          sign = (if negative then - 1 else 1 :: int)
      in if v = [] \<or> \<not> list_all (\<lambda>c. is_dec_digit c \<or> c = CHR ''.'') v
         then Inl (error ''invalid decimal value'')
         else if v = ''.'' then Inl (error ''missing value'')
         else (case js_split (CHR ''.'') v of
                 [whole] \<Rightarrow> Inr (sign * (int (dec_val whole) * 10 ^ 18))
               | [whole, fraction] \<Rightarrow>
                   (let f = strip_zeros fraction
                    in if length f > 18
                       then Inl (error ''fractional component exceeds decimals'')
                       else Inr (sign * (int (dec_val whole) * 10 ^ 18
                                         + int (dec_val f) * 10 ^ (18 - length f))))
               | _ \<Rightarrow> Inl (error ''too many decimal points'')))"

text \<open>
  Modelled from the spec: the conversion back from the minimal unit to a decimal ETH
  string (\<open>ethers.utils.formatEther\<close>), which neither script calls; the spec's
  round-trip property names it. The fraction is printed with 18 places and its
  trailing zeros dropped, keeping one digit.
\<close>

definition formatEther :: "int \<Rightarrow> string" where
  "formatEther wei =
     (let a = nat \<bar>wei\<bar>;
          whole = decimal (a div 10 ^ 18);
          d = decimal (a mod 10 ^ 18);
          fraction = strip_zeros (replicate (18 - length d) (CHR ''0'') @ d)
      in (if wei < 0 then ''-'' else []) @ whole @ ''.'' @
         (if fraction = [] then ''0'' else fraction))"

section \<open>Order components (part\_000, lines 60 to 142)\<close>

record offer_item =
  itemType :: nat
  token :: string
  identifierOrCriteria :: string
  startAmount :: string
  endAmount :: string

record consideration_item = offer_item +
  recipient :: string

record order_components =
  offerer :: string
  zone :: string
  offer :: "offer_item list"
  consideration :: "consideration_item list"
  orderType :: nat
  startTime :: jsnum
  endTime :: jsnum
  zoneHash :: string
  salt :: string
  conduitKey :: string
  counter :: string

definition domain :: json where
  "domain = JObject
     [(''name'', JString ''Seaport''),
      (''version'', JString ''1.5''),
      (''chainId'', JNumber (Num CHAIN_ID)),
      (''verifyingContract'', JString SEAPORT_CONTRACT_ADDRESS)]"

definition field :: "string \<Rightarrow> string \<Rightarrow> json" where
  "field n t = JObject [(''name'', JString n), (''type'', JString t)]"

definition types :: json where
  "types = JObject
     [(''OrderComponents'', JArray
         [field ''offerer'' ''address'',
          field ''zone'' ''address'',
          field ''offer'' ''OfferItem[]'',
          field ''consideration'' ''ConsiderationItem[]'',
          field ''orderType'' ''uint8'',
          field ''startTime'' ''uint256'',
          field ''endTime'' ''uint256'',
          field ''zoneHash'' ''bytes32'',
          field ''salt'' ''uint256'',
          field ''conduitKey'' ''bytes32'',
          field ''counter'' ''uint256'']),
      (''OfferItem'', JArray
         [field ''itemType'' ''uint8'',
          field ''token'' ''address'',
          field ''identifierOrCriteria'' ''uint256'',
          field ''startAmount'' ''uint256'',
          field ''endAmount'' ''uint256'']),
      (''ConsiderationItem'', JArray
         [field ''itemType'' ''uint8'',
          field ''token'' ''address'',
          field ''identifierOrCriteria'' ''uint256'',
          field ''startAmount'' ''uint256'',
          field ''endAmount'' ''uint256'',
          field ''recipient'' ''address''])]"

definition big_endian :: "8 word list \<Rightarrow> nat" where
  "big_endian bs = foldl (\<lambda>a b. a * 256 + unat b) 0 bs"

definition floor_seconds :: "nat \<Rightarrow> jsnum" where
  "floor_seconds ms = Num (int (ms div 1000))"

definition orderComponents ::
  "config \<Rightarrow> call_env \<Rightarrow> wallet \<Rightarrow> nft \<Rightarrow> int \<Rightarrow> order_components" where
  "orderComponents cfg ce w n priceInWei =
     (let now = floor_seconds (date_now ce);
          durationInSeconds = js_mul (parseInt (LISTING_DURATION_MINUTES cfg)) (Num 60)
      in \<lparr>offerer = address w,
          zone = zero_address,
          offer =
            [\<lparr>itemType = 2, token = contract n, identifierOrCriteria = identifier' n,
              startAmount = ''1'', endAmount = ''1''\<rparr>],
          consideration =
            [\<lparr>itemType = 0, token = zero_address, identifierOrCriteria = ''0'',
              startAmount = decimal_int priceInWei, endAmount = decimal_int priceInWei,
              recipient = address w\<rparr>],
          orderType = 0,
          startTime = now,
          endTime = js_add now durationInSeconds,
          zoneHash = zero_hash,
          salt = decimal (big_endian (randomBytes ce 32)),
          conduitKey = conduit_key,
          counter = ''0''\<rparr>)"

definition offer_json :: "offer_item \<Rightarrow> json" where
  "offer_json it = JObject
     [(''itemType'', JNumber (Num (int (itemType it)))),
      (''token'', JString (token it)),
      (''identifierOrCriteria'', JString (identifierOrCriteria it)),
      (''startAmount'', JString (startAmount it)),
      (''endAmount'', JString (endAmount it))]"

definition consideration_json :: "consideration_item \<Rightarrow> json" where
  "consideration_json it = JObject
     [(''itemType'', JNumber (Num (int (itemType it)))),
      (''token'', JString (token it)),
      (''identifierOrCriteria'', JString (identifierOrCriteria it)),
      (''startAmount'', JString (startAmount it)),
      (''endAmount'', JString (endAmount it)),
      (''recipient'', JString (recipient it))]"

definition order_fields :: "order_components \<Rightarrow> (string \<times> json) list" where
  "order_fields oc =
     [(''offerer'', JString (offerer oc)),
      (''zone'', JString (zone oc)),
      (''offer'', JArray (map offer_json (offer oc))),
      (''consideration'', JArray (map consideration_json (consideration oc))),
      (''orderType'', JNumber (Num (int (orderType oc)))),
      (''startTime'', JNumber (startTime oc)),
      (''endTime'', JNumber (endTime oc)),
      (''zoneHash'', JString (zoneHash oc)),
      (''salt'', JString (salt oc)),
      (''conduitKey'', JString (conduitKey oc)),
      (''counter'', JString (counter oc))]"

text \<open>\<open>{...components, signature: signature}\<close>: the spread, then the new key.\<close>

definition payload :: "(string \<times> json) list \<Rightarrow> string \<Rightarrow> json" where
  "payload components signature = JObject
     [(''parameters'', JObject (components @ [(''signature'', JString signature)])),
      (''protocol_address'', JString SEAPORT_CONTRACT_ADDRESS)]"

section \<open>The listing function and the batch loop (part\_000)\<close>

definition quote :: string where
  "quote = [CHR 0x22]"

definition newline :: string where
  "newline = [CHR 0x0A]"

text \<open>\<open>a || b\<close> on an optional string: \<open>undefined\<close> and the empty string are falsy.\<close>

definition or_else :: "string option \<Rightarrow> string \<Rightarrow> string" where
  "or_else a b = (case a of None \<Rightarrow> b | Some s \<Rightarrow> if s = [] then b else s)"

text \<open>\<open>error.response?.data?.message || error.message\<close>\<close>

definition reason :: "js_error \<Rightarrow> string" where
  "reason e =
     (case response e of
        None \<Rightarrow> message e
      | Some r \<Rightarrow> or_else (data_message r) (message e))"

definition listings_url :: string where
  "listings_url = OPENSEA_API_BASE_URL @ ''/listings''"

definition post_headers :: "config \<Rightarrow> headers" where
  "post_headers cfg =
     [(''X-API-KEY'', OPENSEA_API_KEY cfg), (''Content-Type'', ''application/json'')]"

definition http_post :: "call_env \<Rightarrow> string \<Rightarrow> json \<Rightarrow> headers \<Rightarrow> unit io" where
  "http_post ce url body hs = ([HttpPost url body hs], axios_post ce url body hs)"

definition start_message :: "string \<Rightarrow> nft \<Rightarrow> wallet \<Rightarrow> string \<Rightarrow> string" where
  "start_message nm n w priceInEth =
     ''[START] Attempting to list '' @ nm @ '' (Token ID: '' @ identifier' n @
     '') from wallet '' @ address w @ '' for '' @ priceInEth @ '' ETH''"

definition success_message :: "string \<Rightarrow> nft \<Rightarrow> string" where
  "success_message nm n =
     ''[SUCCESS] SUCCESS: NFT '' @ quote @ nm @ quote @
     '' listed! Link: https://opensea.io/assets/base/'' @ contract n @ ''/'' @ identifier' n"

definition failed_message :: "string \<Rightarrow> nft \<Rightarrow> string \<Rightarrow> string" where
  "failed_message nm n why =
     ''[FAILED] FAILED: Error listing NFT '' @ nm @ '' (ID: '' @ identifier' n @
     ''). Reason: '' @ why"

definition details_message :: "string \<Rightarrow> string" where
  "details_message js = ''[FAILED] Error Details: '' @ js"

definition listNFT :: "config \<Rightarrow> call_env \<Rightarrow> wallet \<Rightarrow> nft \<Rightarrow> string \<Rightarrow> bool io" where
  "listNFT cfg ce w n priceInEth =
     bind (console_log (start_message (or_else (name n) ''NFT'') n w priceInEth)) (\<lambda>_.
     bind (logToFile (start_message (or_else (name n) ''NFT'') n w priceInEth)) (\<lambda>_.
     try_catch
       (bind (lift (parseEther priceInEth)) (\<lambda>priceInWei.
        bind (lift (signTypedData ce w domain types
                      (JObject (order_fields (orderComponents cfg ce w n priceInWei))))) (\<lambda>signature.
        bind (http_post ce listings_url
                (payload (order_fields (orderComponents cfg ce w n priceInWei)) signature)
                (post_headers cfg)) (\<lambda>_.
        bind (console_log (success_message (or_else (name n) ''NFT'') n)) (\<lambda>_.
        bind (logToFile (success_message (or_else (name n) ''NFT'') n)) (\<lambda>_.
        ret True))))))
       (\<lambda>e.
        bind (console_error (failed_message (or_else (name n) ''NFT'') n (reason e))) (\<lambda>_.
        bind (logToFile (failed_message (or_else (name n) ''NFT'') n (reason e))) (\<lambda>_.
        bind (case response e of
                None \<Rightarrow> ret ()
              | Some r \<Rightarrow> logToFile (details_message (data_json_indented r))) (\<lambda>_.
        ret False))))))"

definition getWallet :: "config \<Rightarrow> world \<Rightarrow> string option \<Rightarrow> wallet io" where
  "getWallet cfg wd privateKey =
     lift (case new_Wallet wd privateKey (RPC_URL cfg) of
             Inl e \<Rightarrow> Inl e
           | Inr a \<Rightarrow> Inr \<lparr>address = a, signingKey = privateKey\<rparr>)"

text \<open>\<open>xs[i]\<close>: \<open>undefined\<close> out of range.\<close>

definition js_index :: "'a list \<Rightarrow> nat \<Rightarrow> 'a option" where
  "js_index xs i = (if i < length xs then Some (xs ! i) else None)"

definition holdings_url :: "string \<Rightarrow> string" where
  "holdings_url walletAddress =
     OPENSEA_API_BASE_URL @ ''/chain/'' @ CHAIN @ ''/account/'' @ walletAddress @ ''/nfts''"

definition http_get :: "world \<Rightarrow> nat \<Rightarrow> string \<Rightarrow> headers \<Rightarrow> (nft list) io" where
  "http_get wd i url hs = ([HttpGet url hs], axios_get wd i url hs)"

definition targetNfts :: "config \<Rightarrow> nft list \<Rightarrow> nft list" where
  "targetNfts cfg nfts =
     filter (\<lambda>n. toLowerCase (contract n) = toLowerCase (TARGET_CONTRACT_ADDRESS cfg)) nfts"

definition wallet_header :: "config \<Rightarrow> nat \<Rightarrow> string" where
  "wallet_header cfg i =
     newline @ ''========================================='' @ newline @
     ''Processing wallet '' @ decimal (i + 1) @ ''/'' @ decimal (length (WALLETS cfg)) @ '': '' @
     str_of (js_index (WALLETS cfg) i) @ newline @ ''=========================================''"

definition found_message :: "nat \<Rightarrow> string" where
  "found_message k = ''Found '' @ decimal k @ '' NFTs from the target contract.''"

definition fetch_error :: "string \<Rightarrow> string \<Rightarrow> string" where
  "fetch_error walletAddress why =
     ''Failed to fetch NFTs from wallet '' @ walletAddress @ ''. Reason: '' @ why"

text \<open>One turn of the loop over the wallets (lines 171 to 198).\<close>

definition process_wallet :: "config \<Rightarrow> world \<Rightarrow> nat \<Rightarrow> unit io" where
  "process_wallet cfg wd i =
     bind (console_log (wallet_header cfg i)) (\<lambda>_.
     bind (logToFile (wallet_header cfg i)) (\<lambda>_.
     bind (getWallet cfg wd (js_index (PRIVATE_KEYS cfg) i)) (\<lambda>w.
     try_catch
       (bind (http_get wd i (holdings_url (str_of (js_index (WALLETS cfg) i)))
                [(''X-API-KEY'', OPENSEA_API_KEY cfg)]) (\<lambda>nfts.
        if targetNfts cfg nfts = []
        then bind (console_log ''No NFTs from the target contract found in this wallet.'') (\<lambda>_.
             logToFile ''No NFTs from the target contract found.'')
        else bind (console_log (found_message (length (targetNfts cfg nfts))
                                @ '' Starting listing process...'')) (\<lambda>_.
             bind (logToFile (found_message (length (targetNfts cfg nfts)))) (\<lambda>_.
             for_each (enumerate 0 (targetNfts cfg nfts)) (\<lambda>(j, n).
               bind (listNFT cfg (listing_env wd i j) w n (LISTING_PRICE_IN_ETH cfg)) (\<lambda>_.
               emit (SetTimeout 2000)))))))
       (\<lambda>e.
        bind (console_error (fetch_error (str_of (js_index (WALLETS cfg) i)) (reason e))) (\<lambda>_.
        logToFile (fetch_error (str_of (js_index (WALLETS cfg) i)) (reason e)))))))"

definition start_banner :: "config \<Rightarrow> string" where
  "start_banner cfg =
     ''--- Starting NFT listing process for '' @ decimal (length (WALLETS cfg)) @ '' wallets. ---''"

definition end_banner :: string where
  "end_banner = newline @ ''--- Process finished. Check listing_log.txt for a full report. ---''"

definition main :: "config \<Rightarrow> world \<Rightarrow> unit io" where
  "main cfg wd =
     bind (console_log (start_banner cfg)) (\<lambda>_.
     bind (logToFile (start_banner cfg)) (\<lambda>_.
     bind (for_each [0..<length (WALLETS cfg)] (process_wallet cfg wd)) (\<lambda>_.
     bind (console_log end_banner) (\<lambda>_.
     logToFile end_banner))))"

text \<open>
  The process: validation at module level, then \<open>main().catch(...)\<close>. The result is
  the trace and the exit status. An exception that leaves the module body is printed
  by the runtime and ends the process with status 1. The console line of an uncaught
  or fatal error is abridged to the error's message.
\<close>

definition fatal :: "js_error \<Rightarrow> event list" where
  "fatal e =
     [ConsoleError (''An unexpected error occurred: '' @ message e),
      LogToFile (''FATAL ERROR: '' @ message e)]"

definition run :: "environment \<Rightarrow> world \<Rightarrow> event list \<times> nat" where
  "run env wd =
     (case validate env of
        Uncaught e \<Rightarrow> ([ConsoleError (''Uncaught TypeError: '' @ message e)], 1)
      | Exited status diagnostic \<Rightarrow> ([ConsoleError diagnostic], status)
      | Started cfg \<Rightarrow>
          (case main cfg wd of
             (ev, Inr _) \<Rightarrow> (ev, 0)
           | (ev, Inl e) \<Rightarrow> (ev @ fatal e, 1)))"

section \<open>The other variant (main.js)\<close>

text \<open>
  In main.js a token without a name prints as \<open>undefined\<close> (a name that is \<open>null\<close>
  in the answer, which would print as \<open>null\<close>, is not told apart from an absent one),
  the objects \<open>types\<close> and \<open>orderComponents\<close> are written empty, the price is
  not converted, the body of the POST is flat, the failure reason is \<open>error.message\<close>,
  the error details are printed compactly, and the pause is 1000 ms.
\<close>

definition str_undefined :: "string option \<Rightarrow> string" where
  "str_undefined a = (case a of None \<Rightarrow> ''undefined'' | Some s \<Rightarrow> s)"

definition mainjs_body :: "(string \<times> json) list \<Rightarrow> string \<Rightarrow> json" where
  "mainjs_body components signature = JObject
     (components @
      [(''signature'', JString signature),
       (''protocol_address'', JString SEAPORT_CONTRACT_ADDRESS)])"

definition mainjs_listNFT :: "config \<Rightarrow> call_env \<Rightarrow> wallet \<Rightarrow> nft \<Rightarrow> string \<Rightarrow> bool io" where
  "mainjs_listNFT cfg ce w n priceInEth =
     bind (console_log (start_message (str_undefined (name n)) n w priceInEth)) (\<lambda>_.
     bind (logToFile (start_message (str_undefined (name n)) n w priceInEth)) (\<lambda>_.
     try_catch
       (bind (lift (signTypedData ce w domain (JObject []) (JObject []))) (\<lambda>signature.
        bind (http_post ce listings_url (mainjs_body [] signature) (post_headers cfg)) (\<lambda>_.
        bind (console_log (success_message (str_undefined (name n)) n)) (\<lambda>_.
        bind (logToFile (success_message (str_undefined (name n)) n)) (\<lambda>_.
        ret True)))))
       (\<lambda>e.
        bind (console_error (failed_message (str_undefined (name n)) n (message e))) (\<lambda>_.
        bind (logToFile (failed_message (str_undefined (name n)) n (message e))) (\<lambda>_.
        bind (case response e of
                None \<Rightarrow> ret ()
              | Some r \<Rightarrow> logToFile (details_message (data_json r))) (\<lambda>_.
        ret False))))))"

definition mainjs_process_wallet :: "config \<Rightarrow> world \<Rightarrow> nat \<Rightarrow> unit io" where
  "mainjs_process_wallet cfg wd i =
     bind (console_log (wallet_header cfg i)) (\<lambda>_.
     bind (logToFile (wallet_header cfg i)) (\<lambda>_.
     bind (getWallet cfg wd (js_index (PRIVATE_KEYS cfg) i)) (\<lambda>w.
     try_catch
       (bind (http_get wd i (holdings_url (str_of (js_index (WALLETS cfg) i)))
                [(''X-API-KEY'', OPENSEA_API_KEY cfg)]) (\<lambda>nfts.
        if targetNfts cfg nfts = []
        then bind (console_log ''No NFTs from the target contract found in this wallet.'') (\<lambda>_.
             logToFile ''No NFTs from the target contract found.'')
        else bind (console_log (found_message (length (targetNfts cfg nfts))
                                @ '' Starting listing process...'')) (\<lambda>_.
             bind (logToFile (found_message (length (targetNfts cfg nfts)))) (\<lambda>_.
             for_each (enumerate 0 (targetNfts cfg nfts)) (\<lambda>(j, n).
               bind (mainjs_listNFT cfg (listing_env wd i j) w n (LISTING_PRICE_IN_ETH cfg)) (\<lambda>_.
               emit (SetTimeout 1000)))))))
       (\<lambda>e.
        bind (console_error (fetch_error (str_of (js_index (WALLETS cfg) i)) (message e))) (\<lambda>_.
        logToFile (fetch_error (str_of (js_index (WALLETS cfg) i)) (message e)))))))"

definition mainjs_main :: "config \<Rightarrow> world \<Rightarrow> unit io" where
  "mainjs_main cfg wd =
     bind (console_log (start_banner cfg)) (\<lambda>_.
     bind (logToFile (start_banner cfg)) (\<lambda>_.
     bind (for_each [0..<length (WALLETS cfg)] (mainjs_process_wallet cfg wd)) (\<lambda>_.
     bind (console_log end_banner) (\<lambda>_.
     logToFile end_banner))))"

section \<open>Notions used in the statements\<close>

text \<open>The messages a trace hands to the log sink, in order.\<close>

definition log_entries :: "event list \<Rightarrow> string list" where
  "log_entries ev = concat (map (\<lambda>e. case e of LogToFile m \<Rightarrow> [m] | _ \<Rightarrow> []) ev)"

text \<open>
  The first error raised inside the \<open>try\<close> block of \<open>listNFT\<close>, if any: by the price
  conversion, by the signer, or by the POST.
\<close>

definition listing_failure ::
  "config \<Rightarrow> call_env \<Rightarrow> wallet \<Rightarrow> nft \<Rightarrow> string \<Rightarrow> js_error option" where
  "listing_failure cfg ce w n priceInEth =
     (case parseEther priceInEth of
        Inl e \<Rightarrow> Some e
      | Inr priceInWei \<Rightarrow>
          (case signTypedData ce w domain types
                  (JObject (order_fields (orderComponents cfg ce w n priceInWei))) of
             Inl e \<Rightarrow> Some e
           | Inr signature \<Rightarrow>
               (case axios_post ce listings_url
                       (payload (order_fields (orderComponents cfg ce w n priceInWei)) signature)
                       (post_headers cfg) of
                  Inl e \<Rightarrow> Some e
                | Inr _ \<Rightarrow> None)))"

text \<open>Whether \<open>new ethers.Wallet\<close> accepts the key at index \<open>i\<close>, and the wallet it gives.\<close>

definition wallet_accepted :: "config \<Rightarrow> world \<Rightarrow> nat \<Rightarrow> bool" where
  "wallet_accepted cfg wd i =
     (case new_Wallet wd (js_index (PRIVATE_KEYS cfg) i) (RPC_URL cfg) of
        Inl _ \<Rightarrow> False
      | Inr _ \<Rightarrow> True)"

definition all_accepted :: "config \<Rightarrow> world \<Rightarrow> bool" where
  "all_accepted cfg wd = list_all (wallet_accepted cfg wd) [0..<length (WALLETS cfg)]"

definition opened_wallet :: "config \<Rightarrow> world \<Rightarrow> nat \<Rightarrow> wallet" where
  "opened_wallet cfg wd i =
     \<lparr>address = (case new_Wallet wd (js_index (PRIVATE_KEYS cfg) i) (RPC_URL cfg) of
                   Inl _ \<Rightarrow> []
                 | Inr a \<Rightarrow> a),
      signingKey = js_index (PRIVATE_KEYS cfg) i\<rparr>"

text \<open>
  What token \<open>j\<close> of wallet \<open>i\<close> adds to the trace, and what wallet \<open>i\<close> adds: each
  depends on the answers to that token's and that wallet's own requests only.
\<close>

definition token_events :: "config \<Rightarrow> world \<Rightarrow> nat \<Rightarrow> nat \<times> nft \<Rightarrow> event list" where
  "token_events cfg wd i jn =
     fst (listNFT cfg (listing_env wd i (fst jn)) (opened_wallet cfg wd i) (snd jn)
            (LISTING_PRICE_IN_ETH cfg)) @ [SetTimeout 2000]"

definition wallet_events :: "config \<Rightarrow> world \<Rightarrow> nat \<Rightarrow> event list" where
  "wallet_events cfg wd i =
     [ConsoleLog (wallet_header cfg i), LogToFile (wallet_header cfg i),
      HttpGet (holdings_url (str_of (js_index (WALLETS cfg) i)))
        [(''X-API-KEY'', OPENSEA_API_KEY cfg)]] @
     (case axios_get wd i (holdings_url (str_of (js_index (WALLETS cfg) i)))
             [(''X-API-KEY'', OPENSEA_API_KEY cfg)] of
        Inl e \<Rightarrow>
          [ConsoleError (fetch_error (str_of (js_index (WALLETS cfg) i)) (reason e)),
           LogToFile (fetch_error (str_of (js_index (WALLETS cfg) i)) (reason e))]
      | Inr nfts \<Rightarrow>
          if targetNfts cfg nfts = []
          then [ConsoleLog ''No NFTs from the target contract found in this wallet.'',
                LogToFile ''No NFTs from the target contract found.'']
          else [ConsoleLog (found_message (length (targetNfts cfg nfts))
                            @ '' Starting listing process...''),
                LogToFile (found_message (length (targetNfts cfg nfts)))] @
               concat (map (token_events cfg wd i) (enumerate 0 (targetNfts cfg nfts))))"

definition run_events :: "config \<Rightarrow> world \<Rightarrow> event list" where
  "run_events cfg wd =
     [ConsoleLog (start_banner cfg), LogToFile (start_banner cfg)] @
     concat (map (wallet_events cfg wd) [0..<length (WALLETS cfg)]) @
     [ConsoleLog end_banner, LogToFile end_banner]"

text \<open>
  Equality of strings up to letter case, in the words of the claim: position by
  position the characters are equal, or one is the capital of the other.
\<close>

definition same_letter :: "char \<Rightarrow> char \<Rightarrow> bool" where
  "same_letter c d = (c = d \<or> (is_upper c \<and> d = lower_char c) \<or> (is_upper d \<and> c = lower_char d))"

definition equal_ignoring_case :: "string \<Rightarrow> string \<Rightarrow> bool" where
  "equal_ignoring_case a b = list_all2 same_letter a b"

text \<open>A blank line holds white space only; the lines of a value that are not blank.\<close>

definition blank :: "string \<Rightarrow> bool" where
  "blank l = list_all is_space l"

definition nonblank_lines :: "string \<Rightarrow> string list" where
  "nonblank_lines s = filter (\<lambda>l. \<not> blank l) (js_split (CHR 0x0A) s)"

text \<open>The requests a trace sends over the network.\<close>

definition network_calls :: "event list \<Rightarrow> event list" where
  "network_calls ev =
     filter (\<lambda>e. case e of HttpGet _ _ \<Rightarrow> True | HttpPost _ _ _ \<Rightarrow> True | _ \<Rightarrow> False) ev"

text \<open>The POST requests of a trace (URL, body, headers) and its pauses, in order.\<close>

definition posted :: "event list \<Rightarrow> (string \<times> json \<times> headers) list" where
  "posted ev = concat (map (\<lambda>e. case e of HttpPost u b h \<Rightarrow> [(u, b, h)] | _ \<Rightarrow> []) ev)"

definition delays :: "event list \<Rightarrow> nat list" where
  "delays ev = concat (map (\<lambda>e. case e of SetTimeout k \<Rightarrow> [k] | _ \<Rightarrow> []) ev)"

text \<open>How many tokens of the target collection the holdings query of wallet \<open>i\<close> returns.\<close>

definition matching_tokens :: "config \<Rightarrow> world \<Rightarrow> nat \<Rightarrow> nat" where
  "matching_tokens cfg wd i =
     (case axios_get wd i (holdings_url (str_of (js_index (WALLETS cfg) i)))
             [(''X-API-KEY'', OPENSEA_API_KEY cfg)] of
        Inl _ \<Rightarrow> 0
      | Inr nfts \<Rightarrow> length (targetNfts cfg nfts))"

text \<open>
  A decimal text: an optional minus sign, then the digits of the whole part and, after
  a point, the digits of the fraction; either part may be empty, but not both with the
  point alone. Its value is a rational number; its decimal places are the digits of the
  fraction up to the last one that is not zero.
\<close>

definition is_negative :: "string \<Rightarrow> bool" where
  "is_negative s = (take 1 s = ''-'')"

definition unsigned_text :: "string \<Rightarrow> string" where
  "unsigned_text s = (if is_negative s then drop 1 s else s)"

definition whole_part :: "string \<Rightarrow> string" where
  "whole_part s = takeWhile (\<lambda>c. c \<noteq> CHR ''.'') (unsigned_text s)"

definition fraction_part :: "string \<Rightarrow> string" where
  "fraction_part s = drop 1 (dropWhile (\<lambda>c. c \<noteq> CHR ''.'') (unsigned_text s))"

definition well_formed_decimal :: "string \<Rightarrow> bool" where
  "well_formed_decimal s =
     (unsigned_text s \<noteq> [] \<and> unsigned_text s \<noteq> ''.''
      \<and> list_all is_dec_digit (whole_part s) \<and> list_all is_dec_digit (fraction_part s))"

definition decimal_places :: "string \<Rightarrow> nat" where
  "decimal_places s = length (strip_zeros (fraction_part s))"

definition dec_value :: "string \<Rightarrow> rat" where
  "dec_value s =
     (if is_negative s then - 1 else 1) *
     (of_nat (dec_val (whole_part s))
      + of_nat (dec_val (fraction_part s)) / 10 ^ length (fraction_part s))"

definition frac_value :: "string \<Rightarrow> rat" where
  "frac_value f = of_nat (dec_val f) / 10 ^ length f"

text \<open>The parts of the text that \<open>formatEther\<close> prints.\<close>

definition format_whole :: "int \<Rightarrow> string" where
  "format_whole wei = decimal (nat \<bar>wei\<bar> div 10 ^ 18)"

definition format_padded :: "int \<Rightarrow> string" where
  "format_padded wei =
     replicate (18 - length (decimal (nat \<bar>wei\<bar> mod 10 ^ 18))) (CHR ''0'')
     @ decimal (nat \<bar>wei\<bar> mod 10 ^ 18)"

definition format_fraction :: "int \<Rightarrow> string" where
  "format_fraction wei =
     (if strip_zeros (format_padded wei) = [] then ''0'' else strip_zeros (format_padded wei))"

section \<open>Example inputs\<close>

definition example_wallet_lines :: string where
  "example_wallet_lines = ''0xW1'' @ [CHR 0x0A, CHR 0x0A] @ ''  0xW2  '' @ [CHR 0x0A]"

definition example_environment :: environment where
  "example_environment =
     \<lparr>env_OPENSEA_API_KEY = Some ''key'',
      env_RPC_URL = Some ''https://rpc.example'',
      env_TARGET_CONTRACT_ADDRESS = Some ''0xAbCd'',
      env_LISTING_PRICE_IN_ETH = Some ''0.01'',
      env_LISTING_DURATION_MINUTES = Some ''30'',
      env_WALLETS = Some example_wallet_lines,
      env_PRIVATE_KEYS = Some (''0xK1'' @ [CHR 0x0D, CHR 0x0A] @ ''0xK2'')\<rparr>"

definition example_config :: config where
  "example_config =
     \<lparr>OPENSEA_API_KEY = ''key'', RPC_URL = ''https://rpc.example'',
      TARGET_CONTRACT_ADDRESS = ''0xAbCd'', LISTING_PRICE_IN_ETH = ''0.01'',
      LISTING_DURATION_MINUTES = ''30'', WALLETS = [''0xW1'', ''0xW2''],
      PRIVATE_KEYS = [''0xK1'', ''0xK2'']\<rparr>"

definition example_nft :: nft where
  "example_nft = \<lparr>contract = ''0xABCD'', identifier' = ''7'', name = Some ''Ape''\<rparr>"

definition other_nft :: nft where
  "other_nft = \<lparr>contract = ''0xEEEE'', identifier' = ''1'', name = None\<rparr>"

definition second_nft :: nft where
  "second_nft = \<lparr>contract = ''0xabcd'', identifier' = ''8'', name = None\<rparr>"

definition example_wallet :: wallet where
  "example_wallet = \<lparr>address = ''0xW1'', signingKey = Some ''0xK1''\<rparr>"

definition server_error :: js_error where
  "server_error =
     \<lparr>message = ''Request failed with status code 500'',
      response = Some \<lparr>data_message = Some ''Internal error'',
                        data_json = ''{}'', data_json_indented = ''{}''\<rparr>\<rparr>"

definition example_bytes :: "8 word list" where
  "example_bytes =
     [0, 0, 0, 0, 0, 0, 0, 0, 0, 0, 0, 0, 0, 0, 0, 0,
      0, 0, 0, 0, 0, 0, 0, 0, 0, 0, 0, 0, 0, 0, 1, 7]"

definition example_call_env :: call_env where
  "example_call_env =
     \<lparr>date_now = 1700000000123,
      randomBytes = (\<lambda>k. take k example_bytes),
      signTypedData = (\<lambda>_ _ _ _. Inr ''0xsig''),
      axios_post = (\<lambda>_ _ _. Inr ())\<rparr>"

definition failing_call_env :: call_env where
  "failing_call_env =
     \<lparr>date_now = 1700000000123,
      randomBytes = (\<lambda>k. take k example_bytes),
      signTypedData = (\<lambda>_ _ _ _. Inr ''0xsig''),
      axios_post = (\<lambda>_ _ _. Inl server_error)\<rparr>"

text \<open>
  The first wallet's holdings query fails; the second wallet holds two tokens of the
  target collection, and the POST for the first of them is answered with status 500.
  The chain's counter of every offerer is 1.
\<close>

definition example_world :: world where
  "example_world =
     \<lparr>new_Wallet = (\<lambda>k _. case k of None \<Rightarrow> Inl (error ''invalid private key'')
                                | Some s \<Rightarrow> Inr (''0xA'' @ s)),
      axios_get = (\<lambda>i _ _. if i = 0 then Inl (error ''Network Error'')
                            else Inr [example_nft, other_nft, second_nft]),
      listing_env = (\<lambda>i j. if j = 0 then failing_call_env else example_call_env),
      getCounter = (\<lambda>_. 1)\<rparr>"

definition zero_duration_environment :: environment where
  "zero_duration_environment =
     example_environment\<lparr>env_LISTING_DURATION_MINUTES := Some ''0''\<rparr>"

definition zero_duration_config :: config where
  "zero_duration_config = example_config\<lparr>LISTING_DURATION_MINUTES := ''0''\<rparr>"

text \<open>A duration that is not a number: validation only asks that it is not empty.\<close>

definition unparsed_duration_environment :: environment where
  "unparsed_duration_environment =
     example_environment\<lparr>env_LISTING_DURATION_MINUTES := Some ''abc''\<rparr>"

definition unparsed_duration_config :: config where
  "unparsed_duration_config = example_config\<lparr>LISTING_DURATION_MINUTES := ''abc''\<rparr>"

text \<open>
  Both list variables present but empty, as an unset secret arrives in a workflow;
  and both absent.
\<close>

definition empty_lists_environment :: environment where
  "empty_lists_environment =
     example_environment\<lparr>env_WALLETS := Some [], env_PRIVATE_KEYS := Some []\<rparr>"

definition mismatched_environment :: environment where
  "mismatched_environment = example_environment\<lparr>env_PRIVATE_KEYS := Some ''0xK1''\<rparr>"

definition unset_lists_environment :: environment where
  "unset_lists_environment =
     example_environment\<lparr>env_WALLETS := None, env_PRIVATE_KEYS := None\<rparr>"

section \<open>Effects: basic facts\<close>

lemmas io_defs = bind_def try_catch_def ret_def lift_def emit_def logToFile_def console_log_def
  console_error_def http_post_def http_get_def

lemma bind_Inr: "bind (ev, Inr x) f = (ev @ fst (f x), snd (f x))"
  by (simp add: bind_def split: prod.splits)

lemma bind_Inl: "bind (ev, Inl e) f = (ev, Inl e)"
  by (simp add: bind_def)

lemma emit_fst: "fst (emit e) = [e]"
  by (simp add: emit_def)

lemma emit_snd: "snd (emit e) = Inr ()"
  by (simp add: emit_def)

lemma log_entries_simps [simp]:
  "log_entries [] = []"
  "log_entries (LogToFile m # ev) = m # log_entries ev"
  "log_entries (ConsoleLog m # ev) = log_entries ev"
  "log_entries (ConsoleError m # ev) = log_entries ev"
  "log_entries (HttpGet u h # ev) = log_entries ev"
  "log_entries (HttpPost u b h # ev) = log_entries ev"
  "log_entries (SetTimeout k # ev) = log_entries ev"
  by (simp_all add: log_entries_def)

lemma log_entries_append [simp]: "log_entries (a @ b) = log_entries a @ log_entries b"
  by (simp add: log_entries_def)

lemma in_log_entries: "m \<in> set (log_entries ev) \<longleftrightarrow> LogToFile m \<in> set ev"
  by (induction ev) (auto simp: log_entries_def split: event.splits)

text \<open>A loop whose body never throws runs every turn; one whose body throws, throws.\<close>

lemma for_each_total:
  "(\<And>x. x \<in> set xs \<Longrightarrow> snd (body x) = Inr ()) \<Longrightarrow>
   for_each xs body = (concat (map (\<lambda>x. fst (body x)) xs), Inr ())"
proof (induction xs)
  case Nil
  then show ?case by (simp add: ret_def)
next
  case (Cons x xs)
  have "snd (body x) = Inr ()" using Cons.prems by simp
  then have bx: "body x = (fst (body x), Inr ())" by (metis prod.collapse)
  have "for_each xs body = (concat (map (\<lambda>x. fst (body x)) xs), Inr ())"
    using Cons by simp
  then show ?case
    by (subst for_each.simps, subst bx) (simp add: bind_def)
qed

lemma for_each_first_throw:
  "i \<in> set xs \<Longrightarrow> isl (snd (body i)) \<Longrightarrow> isl (snd (for_each xs body))"
proof (induction xs)
  case Nil
  then show ?case by simp
next
  case (Cons x xs)
  show ?case
  proof (cases "snd (body x)")
    case (Inl e)
    then have bx: "body x = (fst (body x), Inl e)" by (metis prod.collapse)
    show ?thesis by (subst for_each.simps, subst bx) (simp add: bind_def)
  next
    case (Inr u)
    then have bx: "body x = (fst (body x), Inr u)" by (metis prod.collapse)
    from Inr Cons.prems have "i \<in> set xs" by auto
    then have "isl (snd (for_each xs body))" using Cons by simp
    then show ?thesis
      by (subst for_each.simps, subst bx) (simp add: bind_Inr)
  qed
qed

section \<open>The listing function\<close>

lemma listNFT_result:
  "snd (listNFT cfg ce w n p) = Inr (listing_failure cfg ce w n p = None)"
  by (simp add: listNFT_def listing_failure_def io_defs split: sum.splits option.splits)

lemma listNFT_log:
  "log_entries (fst (listNFT cfg ce w n p)) =
     start_message (or_else (name n) ''NFT'') n w p #
     (case listing_failure cfg ce w n p of
        None \<Rightarrow> [success_message (or_else (name n) ''NFT'') n]
      | Some e \<Rightarrow>
          failed_message (or_else (name n) ''NFT'') n (reason e) #
          (case response e of
             None \<Rightarrow> []
           | Some r \<Rightarrow> [details_message (data_json_indented r)]))"
  by (simp add: listNFT_def listing_failure_def io_defs split: sum.splits option.splits)

lemma start_logged:
  "LogToFile (start_message (or_else (name n) ''NFT'') n w p) \<in> set (fst (listNFT cfg ce w n p))"
  by (simp add: in_log_entries [symmetric] listNFT_log)

section \<open>Evaluating the examples\<close>

lemma digit_char_simps:
  "digit_char 0 = CHR ''0''" "digit_char (Suc 0) = CHR ''1''" "digit_char 2 = CHR ''2''"
  "digit_char 3 = CHR ''3''" "digit_char 4 = CHR ''4''" "digit_char 5 = CHR ''5''"
  "digit_char 6 = CHR ''6''" "digit_char 7 = CHR ''7''" "digit_char 8 = CHR ''8''"
  "digit_char 9 = CHR ''9''"
  by code_simp+

lemmas parseInt_defs = parseInt_def Let_def is_space_def is_radix_digit_def digit_of_def
  radix_value_def to_num_def

lemma parseInt_30: "parseInt ''30'' = Num 30"
  by (simp add: parseInt_defs)

lemma parseInt_0: "parseInt ''0'' = Num 0"
  by (simp add: parseInt_defs)

lemma parseEther_example: "parseEther ''0.01'' = Inr 10000000000000000"
  by (simp add: parseEther_def is_dec_digit_def dec_val_def strip_zeros_def)

lemma example_now: "date_now example_call_env = 1700000000123"
  by (simp add: example_call_env_def)

lemma listing_failure_example:
  "listing_failure cfg example_call_env w n ''0.01'' = None"
  by (simp add: listing_failure_def parseEther_example example_call_env_def)

lemma listing_failure_failing:
  "listing_failure cfg failing_call_env w n ''0.01'' = Some server_error"
  by (simp add: listing_failure_def parseEther_example failing_call_env_def)

lemmas parse_lines_defs = parse_lines_def trim_def is_space_def example_wallet_lines_def

lemma validate_example: "validate example_environment = Started example_config"
  by (simp add: validate_def example_environment_def example_config_def falsy_def str_of_def
      parse_lines_defs)

lemma validate_zero_duration: "validate zero_duration_environment = Started zero_duration_config"
  by (simp add: validate_def zero_duration_environment_def zero_duration_config_def
      example_environment_def example_config_def falsy_def str_of_def parse_lines_defs)

section \<open>Claims about the order\<close>

text \<open>
  Claim C1, as amended. The counter of every order that \<open>listNFT\<close> builds is the
  constant string \<open>0\<close>, in the order itself and in the fields that are signed and
  posted; the chain's counter of the offerer takes no part.
\<close>

theorem counter_is_constant:
  "counter (orderComponents cfg ce w n priceInWei) = ''0''
   \<and> map_of (order_fields (orderComponents cfg ce w n priceInWei)) ''counter''
       = Some (JString ''0'')"
  by (simp add: orderComponents_def Let_def order_fields_def)

text \<open>
  Claim C1 as stated fails: in a world where the chain's counter of the offerer is 1,
  the order built still carries the counter \<open>0\<close>.
\<close>

theorem counter_not_from_chain:
  "getCounter example_world
     (offerer (orderComponents example_config example_call_env example_wallet example_nft
        10000000000000000)) = 1
   \<and> counter (orderComponents example_config example_call_env example_wallet example_nft
        10000000000000000)
       \<noteq> decimal (getCounter example_world
            (offerer (orderComponents example_config example_call_env example_wallet example_nft
               10000000000000000)))"
  by (simp add: example_world_def orderComponents_def Let_def decimal.simps digit_char_simps)

section \<open>Claims about the listing function\<close>

text \<open>
  Claim C9, as amended. \<open>listNFT\<close> never throws: it returns \<open>true\<close> when the price
  conversion, the signing and the POST all succeed and \<open>false\<close> otherwise. It logs
  one \<open>[START]\<close> entry, then one \<open>[SUCCESS]\<close> entry or one \<open>[FAILED]\<close> entry, and after
  the \<open>[FAILED]\<close> entry one more entry, \<open>[FAILED] Error Details\<close>, when the error
  carries an HTTP response.
\<close>

theorem listNFT_outcome:
  "snd (listNFT cfg ce w n p) = Inr (listing_failure cfg ce w n p = None)
   \<and> log_entries (fst (listNFT cfg ce w n p)) =
       start_message (or_else (name n) ''NFT'') n w p #
       (case listing_failure cfg ce w n p of
          None \<Rightarrow> [success_message (or_else (name n) ''NFT'') n]
        | Some e \<Rightarrow>
            failed_message (or_else (name n) ''NFT'') n (reason e) #
            (case response e of
               None \<Rightarrow> []
             | Some r \<Rightarrow> [details_message (data_json_indented r)]))
   \<and> take 7 (start_message nm n w p) = ''[START]''
   \<and> take 9 (success_message nm n) = ''[SUCCESS]''
   \<and> take 8 (failed_message nm n why) = ''[FAILED]''
   \<and> take 8 (details_message js) = ''[FAILED]''"
  by (simp add: listNFT_result listNFT_log start_message_def success_message_def
      failed_message_def details_message_def)

text \<open>
  Claim C9 as stated fails: when the POST is answered with status 500, one call logs
  three entries, two of them \<open>[FAILED]\<close>.
\<close>

theorem two_failed_entries:
  "snd (listNFT example_config failing_call_env example_wallet example_nft ''0.01'') = Inr False
   \<and> log_entries (fst (listNFT example_config failing_call_env example_wallet example_nft ''0.01''))
       = [''[START] Attempting to list Ape (Token ID: 7) from wallet 0xW1 for 0.01 ETH'',
          ''[FAILED] FAILED: Error listing NFT Ape (ID: 7). Reason: Internal error'',
          ''[FAILED] Error Details: {}'']"
  by (simp add: listNFT_result listNFT_log listing_failure_failing server_error_def reason_def
      or_else_def start_message_def failed_message_def details_message_def example_nft_def
      example_wallet_def)

section \<open>The batch loop\<close>

lemma token_loop:
  "for_each jns (\<lambda>(j, n). bind (listNFT cfg (listing_env wd i j) w n p) (\<lambda>_. emit (SetTimeout 2000)))
   = (concat (map (\<lambda>jn. fst (listNFT cfg (listing_env wd i (fst jn)) w (snd jn) p)
                          @ [SetTimeout 2000]) jns), Inr ())"
proof (induction jns)
  case Nil
  then show ?case by (simp add: ret_def)
next
  case (Cons jn jns)
  obtain j n where jn: "jn = (j, n)" by (cases jn)
  obtain ev where l: "listNFT cfg (listing_env wd i j) w n p
      = (ev, Inr (listing_failure cfg (listing_env wd i j) w n p = None))"
    using listNFT_result [of cfg "listing_env wd i j" w n p] by (metis prod.collapse)
  show ?case
    by (simp add: jn Cons l bind_Inr emit_fst emit_snd)
qed

lemma process_wallet_accepted:
  assumes "wallet_accepted cfg wd i"
  shows "process_wallet cfg wd i = (wallet_events cfg wd i, Inr ())"
proof -
  from assms obtain a where a: "new_Wallet wd (js_index (PRIVATE_KEYS cfg) i) (RPC_URL cfg) = Inr a"
    by (auto simp: wallet_accepted_def split: sum.splits)
  then have ow: "opened_wallet cfg wd i = \<lparr>address = a, signingKey = js_index (PRIVATE_KEYS cfg) i\<rparr>"
    by (simp add: opened_wallet_def)
  show ?thesis
    unfolding process_wallet_def wallet_events_def token_events_def ow getWallet_def a token_loop
    by (simp add: io_defs split: sum.splits)
qed

lemma process_wallet_rejected:
  assumes "\<not> wallet_accepted cfg wd i"
  shows "isl (snd (process_wallet cfg wd i))"
proof -
  from assms obtain e where a: "new_Wallet wd (js_index (PRIVATE_KEYS cfg) i) (RPC_URL cfg) = Inl e"
    by (cases "new_Wallet wd (js_index (PRIVATE_KEYS cfg) i) (RPC_URL cfg)")
       (auto simp: wallet_accepted_def)
  show ?thesis
    unfolding process_wallet_def getWallet_def a
    by (simp add: io_defs)
qed

lemma main_all_accepted:
  assumes "all_accepted cfg wd"
  shows "main cfg wd = (run_events cfg wd, Inr ())"
proof -
  have "\<And>i. i \<in> set [0..<length (WALLETS cfg)] \<Longrightarrow> snd (process_wallet cfg wd i) = Inr ()"
    using assms by (simp add: all_accepted_def list_all_iff process_wallet_accepted)
  then have "for_each [0..<length (WALLETS cfg)] (process_wallet cfg wd)
      = (concat (map (\<lambda>i. fst (process_wallet cfg wd i)) [0..<length (WALLETS cfg)]), Inr ())"
    by (rule for_each_total)
  moreover have "map (\<lambda>i. fst (process_wallet cfg wd i)) [0..<length (WALLETS cfg)]
      = map (wallet_events cfg wd) [0..<length (WALLETS cfg)]"
    using assms by (simp add: all_accepted_def list_all_iff process_wallet_accepted)
  ultimately show ?thesis
    by (simp add: main_def run_events_def bind_Inr bind_def emit_def console_log_def logToFile_def)
qed

lemma main_rejected:
  assumes "\<not> all_accepted cfg wd"
  shows "isl (snd (main cfg wd))"
proof -
  from assms obtain i where i: "i \<in> set [0..<length (WALLETS cfg)]" "\<not> wallet_accepted cfg wd i"
    by (auto simp: all_accepted_def list_all_iff)
  then have "isl (snd (for_each [0..<length (WALLETS cfg)] (process_wallet cfg wd)))"
    by (intro for_each_first_throw [of i] process_wallet_rejected)
  then obtain ev e where "for_each [0..<length (WALLETS cfg)] (process_wallet cfg wd) = (ev, Inl e)"
    by (metis isl_def prod.collapse)
  then show ?thesis
    by (simp add: main_def bind_def emit_def console_log_def logToFile_def)
qed

lemma validate_status: "validate env = Exited status d \<Longrightarrow> status = 1"
  by (auto simp: validate_def split: option.splits if_splits)

lemma run_status:
  "snd (run env wd) =
     (case validate env of
        Started cfg \<Rightarrow> if all_accepted cfg wd then 0 else 1
      | _ \<Rightarrow> 1)"
proof (cases "validate env")
  case (Uncaught e)
  then show ?thesis by (simp add: run_def)
next
  case (Exited status d)
  then show ?thesis using validate_status [OF Exited] by (simp add: run_def)
next
  case (Started cfg)
  show ?thesis
  proof (cases "all_accepted cfg wd")
    case True
    then show ?thesis by (simp add: run_def Started main_all_accepted)
  next
    case False
    then obtain ev e where "main cfg wd = (ev, Inl e)"
      using main_rejected [OF False] by (metis isl_def prod.collapse)
    then show ?thesis using False by (simp add: run_def Started)
  qed
qed

lemma run_accepted:
  "validate env = Started cfg \<Longrightarrow> all_accepted cfg wd \<Longrightarrow> run env wd = (run_events cfg wd, 0)"
  by (simp add: run_def main_all_accepted)

lemma wallet_events_in_run:
  "i < length (WALLETS cfg) \<Longrightarrow> set (wallet_events cfg wd i) \<subseteq> set (run_events cfg wd)"
  by (auto simp: run_events_def)

lemma wallet_queried:
  "HttpGet (holdings_url (str_of (js_index (WALLETS cfg) i))) [(''X-API-KEY'', OPENSEA_API_KEY cfg)]
     \<in> set (wallet_events cfg wd i)"
  by (simp add: wallet_events_def)

lemma token_attempted:
  assumes "axios_get wd i (holdings_url (str_of (js_index (WALLETS cfg) i)))
             [(''X-API-KEY'', OPENSEA_API_KEY cfg)] = Inr nfts"
    and "jn \<in> set (enumerate 0 (targetNfts cfg nfts))"
  shows "set (token_events cfg wd i jn) \<subseteq> set (wallet_events cfg wd i)"
proof -
  from assms(2) have "targetNfts cfg nfts \<noteq> []" by auto
  then show ?thesis using assms by (auto simp: wallet_events_def)
qed

text \<open>
  Claim C2. The exit status is 0 whenever validation passes and every key opens a
  wallet, whatever the holdings queries, the signer and the POSTs answer; it is 1 only
  when validation fails or an error escapes (\<open>new ethers.Wallet\<close> throws outside the
  guards). In a run that ends with status 0 the trace is the start banner, the events
  of every wallet in turn and the end banner: each wallet is queried, also after the
  query of an earlier wallet failed (its events are then the header, the request and
  the logged reason), and every token of the target collection that a query returns
  gets its \<open>[START]\<close> entry and its call of \<open>listNFT\<close>, which never throws, also after
  an earlier token failed.
\<close>

theorem failure_isolation:
  "snd (run env wd) =
     (case validate env of
        Started cfg \<Rightarrow> if all_accepted cfg wd then 0 else 1
      | _ \<Rightarrow> 1)
   \<and> (\<forall>cfg. validate env = Started cfg \<and> all_accepted cfg wd \<longrightarrow>
        run env wd = (run_events cfg wd, 0)
        \<and> (\<forall>i < length (WALLETS cfg).
              HttpGet (holdings_url (WALLETS cfg ! i)) [(''X-API-KEY'', OPENSEA_API_KEY cfg)]
                \<in> set (fst (run env wd))
              \<and> (\<forall>nfts. axios_get wd i (holdings_url (WALLETS cfg ! i))
                            [(''X-API-KEY'', OPENSEA_API_KEY cfg)] = Inr nfts \<longrightarrow>
                   (\<forall>jn \<in> set (enumerate 0 (targetNfts cfg nfts)).
                      LogToFile (start_message (or_else (name (snd jn)) ''NFT'') (snd jn)
                                   (opened_wallet cfg wd i) (LISTING_PRICE_IN_ETH cfg))
                        \<in> set (fst (run env wd))
                      \<and> snd (listNFT cfg (listing_env wd i (fst jn)) (opened_wallet cfg wd i)
                                (snd jn) (LISTING_PRICE_IN_ETH cfg))
                          = Inr (listing_failure cfg (listing_env wd i (fst jn))
                                   (opened_wallet cfg wd i) (snd jn)
                                   (LISTING_PRICE_IN_ETH cfg) = None)))))"
proof (intro conjI allI impI ballI)
  show "snd (run env wd) =
     (case validate env of
        Started cfg \<Rightarrow> if all_accepted cfg wd then 0 else 1
      | _ \<Rightarrow> 1)"
    by (rule run_status)
next
  fix cfg assume "validate env = Started cfg \<and> all_accepted cfg wd"
  then show "run env wd = (run_events cfg wd, 0)" by (simp add: run_accepted)
next
  fix cfg i
  assume h: "validate env = Started cfg \<and> all_accepted cfg wd" and i: "i < length (WALLETS cfg)"
  have r: "fst (run env wd) = run_events cfg wd" using h by (simp add: run_accepted)
  have s: "str_of (js_index (WALLETS cfg) i) = WALLETS cfg ! i"
    using i by (simp add: js_index_def str_of_def)
  show "HttpGet (holdings_url (WALLETS cfg ! i)) [(''X-API-KEY'', OPENSEA_API_KEY cfg)]
          \<in> set (fst (run env wd))"
    using wallet_queried [of cfg i wd] wallet_events_in_run [OF i, of wd] by (auto simp: r s)
next
  fix cfg i nfts jn
  assume h: "validate env = Started cfg \<and> all_accepted cfg wd" and i: "i < length (WALLETS cfg)"
    and g: "axios_get wd i (holdings_url (WALLETS cfg ! i)) [(''X-API-KEY'', OPENSEA_API_KEY cfg)] = Inr nfts"
    and jn: "jn \<in> set (enumerate 0 (targetNfts cfg nfts))"
  have r: "fst (run env wd) = run_events cfg wd" using h by (simp add: run_accepted)
  have s: "str_of (js_index (WALLETS cfg) i) = WALLETS cfg ! i"
    using i by (simp add: js_index_def str_of_def)
  have "set (token_events cfg wd i jn) \<subseteq> set (wallet_events cfg wd i)"
    using g jn by (intro token_attempted [of wd i cfg nfts]) (simp_all add: s)
  moreover have "LogToFile (start_message (or_else (name (snd jn)) ''NFT'') (snd jn)
                   (opened_wallet cfg wd i) (LISTING_PRICE_IN_ETH cfg)) \<in> set (token_events cfg wd i jn)"
    by (simp add: token_events_def start_logged)
  ultimately show "LogToFile (start_message (or_else (name (snd jn)) ''NFT'') (snd jn)
                   (opened_wallet cfg wd i) (LISTING_PRICE_IN_ETH cfg)) \<in> set (fst (run env wd))"
    using wallet_events_in_run [OF i, of wd] by (auto simp: r)
next
  fix cfg i nfts jn
  show "snd (listNFT cfg (listing_env wd i (fst jn)) (opened_wallet cfg wd i)
                                (snd jn) (LISTING_PRICE_IN_ETH cfg))
                          = Inr (listing_failure cfg (listing_env wd i (fst jn))
                                   (opened_wallet cfg wd i) (snd jn) (LISTING_PRICE_IN_ETH cfg) = None)"
    by (rule listNFT_result)
qed

section \<open>Strings\<close>

lemma of_char_lower:
  "is_upper c \<Longrightarrow> (of_char (lower_char c) :: nat) = of_char c + 32"
proof -
  assume u: "is_upper c"
  then have "(of_char c :: nat) + 32 < 256" by (auto simp: is_upper_def Let_def)
  then show ?thesis using u by (simp add: lower_char_def)
qed

lemma lower_not_upper: "\<not> is_upper (lower_char c)"
proof (cases "is_upper c")
  case True
  then show ?thesis
    using of_char_lower [OF True] by (auto simp: is_upper_def Let_def)
next
  case False
  then show ?thesis by (simp add: lower_char_def)
qed

lemma lower_char_idem: "lower_char (lower_char c) = lower_char c"
  using lower_not_upper [of c] by (simp add: lower_char_def [of "lower_char c"])

lemma lower_char_inj_upper:
  assumes "is_upper c" "is_upper d" "lower_char c = lower_char d"
  shows "c = d"
proof -
  have "(of_char c :: nat) + 32 = of_char (lower_char c)"
    using assms(1) by (rule of_char_lower [symmetric])
  also have "\<dots> = of_char (lower_char d)"
    by (rule arg_cong [OF assms(3)])
  also have "\<dots> = (of_char d :: nat) + 32"
    using assms(2) by (rule of_char_lower)
  finally have "(of_char c :: nat) = of_char d" by linarith
  then show ?thesis by (rule of_char_eqI)
qed

lemma lower_char_fix: "\<not> is_upper c \<Longrightarrow> lower_char c = c"
  by (simp add: lower_char_def)

lemma lower_char_eq_iff: "lower_char c = lower_char d \<longleftrightarrow> same_letter c d"
proof
  assume e: "lower_char c = lower_char d"
  consider (uu) "is_upper c" "is_upper d" | (ul) "is_upper c" "\<not> is_upper d"
    | (lu) "\<not> is_upper c" "is_upper d" | (ll) "\<not> is_upper c" "\<not> is_upper d"
    by blast
  then show "same_letter c d"
  proof cases
    case uu
    then have "c = d" using e by (rule lower_char_inj_upper)
    then show ?thesis unfolding same_letter_def by blast
  next
    case ul
    have "d = lower_char c" using e lower_char_fix [OF ul(2)] by metis
    then show ?thesis unfolding same_letter_def using ul(1) by blast
  next
    case lu
    have "c = lower_char d" using e lower_char_fix [OF lu(1)] by metis
    then show ?thesis unfolding same_letter_def using lu(2) by blast
  next
    case ll
    have "c = d" using e lower_char_fix [OF ll(1)] lower_char_fix [OF ll(2)] by metis
    then show ?thesis unfolding same_letter_def by blast
  qed
next
  assume "same_letter c d"
  then consider "c = d" | "d = lower_char c" | "c = lower_char d"
    unfolding same_letter_def by blast
  then show "lower_char c = lower_char d"
  proof cases
    case 1
    then show ?thesis by blast
  next
    case 2
    show ?thesis by (subst 2) (rule lower_char_idem [symmetric])
  next
    case 3
    show ?thesis by (subst 3) (rule lower_char_idem)
  qed
qed

lemma toLowerCase_eq_iff: "toLowerCase a = toLowerCase b \<longleftrightarrow> equal_ignoring_case a b"
proof (induction a arbitrary: b)
  case Nil
  then show ?case by (simp add: toLowerCase_def equal_ignoring_case_def)
next
  case (Cons x a)
  then show ?case
    by (cases b) (auto simp: toLowerCase_def equal_ignoring_case_def lower_char_eq_iff)
qed

lemma dropWhile_all_space:
  "(\<forall>x \<in> set (dropWhile is_space l). is_space x) \<longleftrightarrow> (\<forall>x \<in> set l. is_space x)"
proof
  assume a: "\<forall>x \<in> set (dropWhile is_space l). is_space x"
  have "dropWhile is_space l = []"
  proof (rule ccontr)
    assume n: "dropWhile is_space l \<noteq> []"
    then have "\<not> is_space (hd (dropWhile is_space l))" by (rule hd_dropWhile)
    moreover have "hd (dropWhile is_space l) \<in> set (dropWhile is_space l)" using n by simp
    ultimately show False using a by blast
  qed
  then show "\<forall>x \<in> set l. is_space x" by (simp add: dropWhile_eq_Nil_conv)
next
  assume "\<forall>x \<in> set l. is_space x"
  then show "\<forall>x \<in> set (dropWhile is_space l). is_space x"
    by (meson set_dropWhileD)
qed

lemma trim_empty_iff: "trim l = [] \<longleftrightarrow> blank l"
  by (simp add: trim_def blank_def list_all_iff dropWhile_eq_Nil_conv dropWhile_all_space)

lemma parse_lines_nonblank: "parse_lines s = map trim (nonblank_lines s)"
  by (simp add: parse_lines_def nonblank_lines_def filter_map o_def trim_empty_iff)

section \<open>Claims about the selection of tokens and the parsing of the lists\<close>

text \<open>
  Claim C7. The tokens selected from a holdings answer are exactly those whose contract
  address equals the configured target address up to letter case, in the order of the
  answer.
\<close>

theorem filter_ignores_case:
  "targetNfts cfg nfts =
     filter (\<lambda>n. equal_ignoring_case (contract n) (TARGET_CONTRACT_ADDRESS cfg)) nfts"
  by (simp add: targetNfts_def toLowerCase_eq_iff)

theorem filter_ignores_case_witness:
  "targetNfts example_config [example_nft, other_nft, second_nft] = [example_nft, second_nft]"
proof -
  have a: "equal_ignoring_case (contract example_nft) (TARGET_CONTRACT_ADDRESS example_config)"
    unfolding toLowerCase_eq_iff [symmetric] by code_simp
  have b: "\<not> equal_ignoring_case (contract other_nft) (TARGET_CONTRACT_ADDRESS example_config)"
    unfolding toLowerCase_eq_iff [symmetric] by code_simp
  have c: "equal_ignoring_case (contract second_nft) (TARGET_CONTRACT_ADDRESS example_config)"
    unfolding toLowerCase_eq_iff [symmetric] by code_simp
  show ?thesis
    using filter_ignores_case [of example_config "[example_nft, other_nft, second_nft]"] a b c
    by simp
qed

text \<open>
  Claim C10. A list variable is split at newlines, each line is trimmed and the empty
  results are dropped: the parsed list is the trimmed non-blank lines, in order, so a
  blank line adds nothing to its length. Validation compares the lengths of the two
  parsed lists: a configuration that starts has as many non-blank wallet lines as
  non-blank key lines, paired by position, and one whose counts differ never starts.
\<close>

theorem lines_parsed:
  "parse_lines s = map trim (nonblank_lines s)
   \<and> length (parse_lines s) = length (nonblank_lines s)
   \<and> [] \<notin> set (parse_lines s)
   \<and> (\<forall>cfg. validate env = Started cfg \<longrightarrow>
        (\<exists>ws ks. env_WALLETS env = Some ws \<and> env_PRIVATE_KEYS env = Some ks
           \<and> WALLETS cfg = map trim (nonblank_lines ws)
           \<and> PRIVATE_KEYS cfg = map trim (nonblank_lines ks)
           \<and> length (nonblank_lines ws) = length (nonblank_lines ks)))
   \<and> (\<forall>ws ks. env_WALLETS env = Some ws \<and> env_PRIVATE_KEYS env = Some ks
           \<and> length (nonblank_lines ws) \<noteq> length (nonblank_lines ks) \<longrightarrow>
        (\<exists>d. validate env = Exited 1 d))"
proof (intro conjI allI impI)
  show "parse_lines s = map trim (nonblank_lines s)" by (rule parse_lines_nonblank)
  show "length (parse_lines s) = length (nonblank_lines s)" by (simp add: parse_lines_nonblank)
  show "[] \<notin> set (parse_lines s)" by (simp add: parse_lines_def)
next
  fix cfg assume "validate env = Started cfg"
  then show "\<exists>ws ks. env_WALLETS env = Some ws \<and> env_PRIVATE_KEYS env = Some ks
           \<and> WALLETS cfg = map trim (nonblank_lines ws)
           \<and> PRIVATE_KEYS cfg = map trim (nonblank_lines ks)
           \<and> length (nonblank_lines ws) = length (nonblank_lines ks)"
    by (auto simp: validate_def parse_lines_nonblank split: option.splits if_splits)
next
  fix ws ks
  assume "env_WALLETS env = Some ws \<and> env_PRIVATE_KEYS env = Some ks
           \<and> length (nonblank_lines ws) \<noteq> length (nonblank_lines ks)"
  then show "\<exists>d. validate env = Exited 1 d"
    by (simp add: validate_def parse_lines_nonblank)
qed

theorem lines_parsed_witness:
  "validate example_environment = Started example_config
   \<and> parse_lines example_wallet_lines = [''0xW1'', ''0xW2'']
   \<and> length (nonblank_lines example_wallet_lines) = 2
   \<and> (\<exists>ws ks. env_WALLETS example_environment = Some ws
         \<and> env_PRIVATE_KEYS example_environment = Some ks
         \<and> WALLETS example_config = map trim (nonblank_lines ws)
         \<and> PRIVATE_KEYS example_config = map trim (nonblank_lines ks)
         \<and> length (nonblank_lines ws) = length (nonblank_lines ks))
   \<and> length (nonblank_lines example_wallet_lines)
       \<noteq> length (nonblank_lines ''0xK1'')
   \<and> (\<exists>d. validate mismatched_environment = Exited 1 d)"
proof -
  let ?ws = example_wallet_lines
  have p: "parse_lines ?ws = [''0xW1'', ''0xW2'']"
    by (simp add: parse_lines_defs)
  have k: "parse_lines ''0xK1'' = [''0xK1'']"
    by (simp add: parse_lines_defs)
  have "length (parse_lines ?ws) = length (nonblank_lines ?ws)"
    using lines_parsed [of ?ws example_environment] by blast
  then have l: "length (nonblank_lines ?ws) = 2"
    by (simp only: p) simp
  have "length (parse_lines ''0xK1'') = length (nonblank_lines ''0xK1'')"
    using lines_parsed [of "''0xK1''" example_environment] by blast
  then have l': "length (nonblank_lines ''0xK1'') = 1"
    by (simp only: k) simp
  have e: "env_WALLETS mismatched_environment = Some ?ws
           \<and> env_PRIVATE_KEYS mismatched_environment = Some ''0xK1''
           \<and> length (nonblank_lines ?ws) \<noteq> length (nonblank_lines ''0xK1'')"
    by (simp add: l l' mismatched_environment_def example_environment_def)
  have m: "\<exists>d. validate mismatched_environment = Exited 1 d"
    using lines_parsed [of ?ws mismatched_environment] e by blast
  have s: "\<exists>ws ks. env_WALLETS example_environment = Some ws
         \<and> env_PRIVATE_KEYS example_environment = Some ks
         \<and> WALLETS example_config = map trim (nonblank_lines ws)
         \<and> PRIVATE_KEYS example_config = map trim (nonblank_lines ks)
         \<and> length (nonblank_lines ws) = length (nonblank_lines ks)"
    using lines_parsed [of ?ws example_environment] validate_example by blast
  show ?thesis
    using validate_example p l l' m s by simp
qed

section \<open>Claims about start-up\<close>

lemma validation_checks:
  assumes "env_WALLETS env = Some ws" and "env_PRIVATE_KEYS env = Some ks"
  shows "falsy (env_OPENSEA_API_KEY env) \<or> falsy (env_RPC_URL env)
           \<or> falsy (env_TARGET_CONTRACT_ADDRESS env) \<or> falsy (env_LISTING_PRICE_IN_ETH env)
           \<or> falsy (env_LISTING_DURATION_MINUTES env) \<Longrightarrow>
         validate env = Exited 1 missing_variables"
    and "\<not> (falsy (env_OPENSEA_API_KEY env) \<or> falsy (env_RPC_URL env)
           \<or> falsy (env_TARGET_CONTRACT_ADDRESS env) \<or> falsy (env_LISTING_PRICE_IN_ETH env)
           \<or> falsy (env_LISTING_DURATION_MINUTES env)) \<Longrightarrow>
         length (parse_lines ws) \<noteq> length (parse_lines ks) \<Longrightarrow>
         validate env = Exited 1 (length_mismatch (length (parse_lines ws)) (length (parse_lines ks)))"
    and "\<not> (falsy (env_OPENSEA_API_KEY env) \<or> falsy (env_RPC_URL env)
           \<or> falsy (env_TARGET_CONTRACT_ADDRESS env) \<or> falsy (env_LISTING_PRICE_IN_ETH env)
           \<or> falsy (env_LISTING_DURATION_MINUTES env)) \<Longrightarrow>
         length (parse_lines ws) = length (parse_lines ks) \<Longrightarrow>
         \<exists>cfg. validate env = Started cfg"
  using assms by (simp_all add: validate_def)

lemma no_network_before_start:
  "(\<And>cfg. validate env \<noteq> Started cfg) \<Longrightarrow> network_calls (fst (run env wd)) = [] \<and> snd (run env wd) = 1"
  by (cases "validate env") (auto simp: run_def network_calls_def dest: validate_status)

text \<open>
  Claim C3, at the inputs where the code departs from it. With the five single values
  set and both list variables present but empty, validation passes and the run ends
  with status 0 and no diagnostic. With both list variables absent, the process ends
  with an uncaught \<open>TypeError\<close> before either check runs.
\<close>

theorem empty_lists_pass:
  "validate empty_lists_environment = Started (example_config\<lparr>WALLETS := [], PRIVATE_KEYS := []\<rparr>)
   \<and> run empty_lists_environment wd =
       ([ConsoleLog ''--- Starting NFT listing process for 0 wallets. ---'',
         LogToFile ''--- Starting NFT listing process for 0 wallets. ---'',
         ConsoleLog end_banner, LogToFile end_banner], 0)
   \<and> validate unset_lists_environment = Uncaught split_of_undefined
   \<and> run unset_lists_environment wd =
       ([ConsoleError (''Uncaught TypeError: '' @ message split_of_undefined)], 1)"
proof -
  have v: "validate empty_lists_environment = Started (example_config\<lparr>WALLETS := [], PRIVATE_KEYS := []\<rparr>)"
    by (simp add: validate_def empty_lists_environment_def example_environment_def
        example_config_def falsy_def str_of_def parse_lines_defs)
  have m: "main (example_config\<lparr>WALLETS := [], PRIVATE_KEYS := []\<rparr>) wd =
       ([ConsoleLog ''--- Starting NFT listing process for 0 wallets. ---'',
         LogToFile ''--- Starting NFT listing process for 0 wallets. ---'',
         ConsoleLog end_banner, LogToFile end_banner], Inr ())"
    by (simp add: main_def io_defs start_banner_def decimal.simps digit_char_simps)
  have u: "validate unset_lists_environment = Uncaught split_of_undefined"
    by (simp add: validate_def unset_lists_environment_def)
  show ?thesis by (simp add: run_def v m u)
qed

section \<open>The run of the example\<close>

lemma example_targets:
  "targetNfts example_config [example_nft, other_nft, second_nft] = [example_nft, second_nft]"
proof -
  have "toLowerCase (contract example_nft) = toLowerCase (TARGET_CONTRACT_ADDRESS example_config)"
    and "toLowerCase (contract other_nft) \<noteq> toLowerCase (TARGET_CONTRACT_ADDRESS example_config)"
    and "toLowerCase (contract second_nft) = toLowerCase (TARGET_CONTRACT_ADDRESS example_config)"
    by code_simp+
  then show ?thesis by (simp add: targetNfts_def)
qed

lemma example_accepted: "all_accepted example_config example_world"
  by (simp add: all_accepted_def wallet_accepted_def example_world_def example_config_def
      js_index_def upt_rec)

lemma example_holdings:
  "axios_get example_world 1 u h = Inr [example_nft, other_nft, second_nft]"
  "axios_get example_world 0 u h = Inl (error ''Network Error'')"
  by (simp_all add: example_world_def)

theorem failure_isolation_witness:
  "validate example_environment = Started example_config
   \<and> all_accepted example_config example_world
   \<and> axios_get example_world 0 (holdings_url ''0xW1'') [(''X-API-KEY'', ''key'')]
       = Inl (error ''Network Error'')
   \<and> listing_failure example_config (listing_env example_world 1 0)
        (opened_wallet example_config example_world 1) example_nft ''0.01'' = Some server_error
   \<and> snd (run example_environment example_world) = 0
   \<and> HttpGet (holdings_url ''0xW2'') [(''X-API-KEY'', ''key'')]
       \<in> set (fst (run example_environment example_world))
   \<and> LogToFile (start_message ''NFT'' second_nft (opened_wallet example_config example_world 1) ''0.01'')
       \<in> set (fst (run example_environment example_world))"
proof -
  note v = validate_example and a = example_accepted
  note t = example_targets
  have jn: "(1, second_nft) \<in> set (enumerate 0 (targetNfts example_config [example_nft, other_nft, second_nft]))"
    by (simp add: t)
  have i: "(1::nat) < length (WALLETS example_config)" by (simp add: example_config_def)
  have w: "WALLETS example_config ! 1 = ''0xW2''" "OPENSEA_API_KEY example_config = ''key''"
    "LISTING_PRICE_IN_ETH example_config = ''0.01''"
    by (simp_all add: example_config_def)
  have g: "axios_get example_world 1 (holdings_url (WALLETS example_config ! 1))
             [(''X-API-KEY'', OPENSEA_API_KEY example_config)] = Inr [example_nft, other_nft, second_nft]"
    by (rule example_holdings)
  have f: "listing_failure example_config (listing_env example_world 1 0)
        (opened_wallet example_config example_world 1) example_nft ''0.01'' = Some server_error"
    by (simp add: example_world_def listing_failure_failing)
  have nm: "or_else (name second_nft) ''NFT'' = ''NFT''"
    by (simp add: or_else_def second_nft_def)
  from failure_isolation [of example_environment example_world] v a
  have s: "snd (run example_environment example_world) = 0"
    by simp
  from failure_isolation [of example_environment example_world] v a i
  have q: "HttpGet (holdings_url (WALLETS example_config ! 1)) [(''X-API-KEY'', OPENSEA_API_KEY example_config)]
       \<in> set (fst (run example_environment example_world))"
    by blast
  from failure_isolation [of example_environment example_world] v a i g jn
  have l: "LogToFile (start_message (or_else (name (snd (1::nat, second_nft))) ''NFT'') (snd (1::nat, second_nft))
                 (opened_wallet example_config example_world 1) (LISTING_PRICE_IN_ETH example_config))
       \<in> set (fst (run example_environment example_world))"
    by blast
  note q' = q [unfolded w]
  note l' = l [unfolded snd_conv nm w]
  show ?thesis
    using v a s q' l' f by (simp add: example_holdings)
qed

section \<open>The two variants\<close>

lemma posted_simps [simp]:
  "posted [] = []"
  "posted (HttpPost u b h # ev) = (u, b, h) # posted ev"
  "posted (LogToFile m # ev) = posted ev"
  "posted (ConsoleLog m # ev) = posted ev"
  "posted (ConsoleError m # ev) = posted ev"
  "posted (HttpGet u h # ev) = posted ev"
  "posted (SetTimeout k # ev) = posted ev"
  by (simp_all add: posted_def)

lemma delays_simps [simp]:
  "delays [] = []"
  "delays (SetTimeout k # ev) = k # delays ev"
  "delays (LogToFile m # ev) = delays ev"
  "delays (ConsoleLog m # ev) = delays ev"
  "delays (ConsoleError m # ev) = delays ev"
  "delays (HttpGet u h # ev) = delays ev"
  "delays (HttpPost u b h # ev) = delays ev"
  by (simp_all add: delays_def)

lemma delays_append [simp]: "delays (a @ b) = delays a @ delays b"
  by (simp add: delays_def)

lemma listNFT_posted:
  "posted (fst (listNFT cfg ce w n p)) =
     (case parseEther p of
        Inl _ \<Rightarrow> []
      | Inr priceInWei \<Rightarrow>
          (case signTypedData ce w domain types
                  (JObject (order_fields (orderComponents cfg ce w n priceInWei))) of
             Inl _ \<Rightarrow> []
           | Inr signature \<Rightarrow>
               [(listings_url,
                 payload (order_fields (orderComponents cfg ce w n priceInWei)) signature,
                 post_headers cfg)]))"
  by (simp add: listNFT_def io_defs split: sum.splits option.splits)

lemma mainjs_listNFT_posted:
  "posted (fst (mainjs_listNFT cfg ce w n p)) =
     (case signTypedData ce w domain (JObject []) (JObject []) of
        Inl _ \<Rightarrow> []
      | Inr signature \<Rightarrow> [(listings_url, mainjs_body [] signature, post_headers cfg)])"
  by (simp add: mainjs_listNFT_def io_defs split: sum.splits option.splits)

lemma listNFT_delays: "delays (fst (listNFT cfg ce w n p)) = []"
  by (simp add: listNFT_def io_defs split: sum.splits option.splits)

lemma mainjs_listNFT_delays: "delays (fst (mainjs_listNFT cfg ce w n p)) = []"
  by (simp add: mainjs_listNFT_def io_defs split: sum.splits option.splits)

lemma mainjs_listNFT_total: "\<exists>b. snd (mainjs_listNFT cfg ce w n p) = Inr b"
  by (auto simp: mainjs_listNFT_def io_defs split: sum.splits option.splits)

lemma mainjs_token_loop:
  "for_each jns (\<lambda>(j, n). bind (mainjs_listNFT cfg (listing_env wd i j) w n p)
                              (\<lambda>_. emit (SetTimeout 1000)))
   = (concat (map (\<lambda>jn. fst (mainjs_listNFT cfg (listing_env wd i (fst jn)) w (snd jn) p)
                          @ [SetTimeout 1000]) jns), Inr ())"
proof (induction jns)
  case Nil
  then show ?case by (simp add: ret_def)
next
  case (Cons jn jns)
  obtain j n where jn: "jn = (j, n)" by (cases jn)
  obtain b where "snd (mainjs_listNFT cfg (listing_env wd i j) w n p) = Inr b"
    using mainjs_listNFT_total by blast
  then obtain ev where l: "mainjs_listNFT cfg (listing_env wd i j) w n p = (ev, Inr b)"
    by (metis prod.collapse)
  show ?case
    by (simp add: jn Cons l bind_Inr emit_fst emit_snd)
qed

lemma delays_paced:
  assumes "\<And>jn. delays (F jn) = []"
  shows "delays (concat (map (\<lambda>jn. F jn @ [SetTimeout k]) jns)) = replicate (length jns) k"
  by (induction jns) (simp_all add: assms)

lemma process_wallet_delays:
  assumes "wallet_accepted cfg wd i"
  shows "delays (fst (process_wallet cfg wd i)) = replicate (matching_tokens cfg wd i) 2000"
proof -
  from assms obtain a where a: "new_Wallet wd (js_index (PRIVATE_KEYS cfg) i) (RPC_URL cfg) = Inr a"
    by (auto simp: wallet_accepted_def split: sum.splits)
  show ?thesis
    unfolding process_wallet_def getWallet_def a token_loop
    by (simp add: io_defs matching_tokens_def delays_paced listNFT_delays split: sum.splits)
qed

lemma mainjs_process_wallet_delays:
  assumes "wallet_accepted cfg wd i"
  shows "delays (fst (mainjs_process_wallet cfg wd i)) = replicate (matching_tokens cfg wd i) 1000"
proof -
  from assms obtain a where a: "new_Wallet wd (js_index (PRIVATE_KEYS cfg) i) (RPC_URL cfg) = Inr a"
    by (auto simp: wallet_accepted_def split: sum.splits)
  show ?thesis
    unfolding mainjs_process_wallet_def getWallet_def a mainjs_token_loop
    by (simp add: io_defs matching_tokens_def delays_paced mainjs_listNFT_delays split: sum.splits)
qed

lemma bodies_differ: "payload cs sg \<noteq> mainjs_body cs' sg'"
  by (auto simp: payload_def mainjs_body_def append_eq_Cons_conv)

lemma example_matching: "matching_tokens example_config example_world (Suc 0) = Suc (Suc 0)"
  by (simp add: matching_tokens_def example_world_def example_targets)

lemma example_wallet_accepted: "wallet_accepted example_config example_world (Suc 0)"
  by (simp add: wallet_accepted_def example_world_def example_config_def js_index_def)

text \<open>
  Claim C8, as amended. For the same inputs, part\_000 posts the body
  \<open>{parameters: {...components, signature}, protocol_address}\<close> and pauses 2000 ms
  after each listing attempt, while main.js posts the flat body
  \<open>{...components, signature, protocol_address}\<close> and pauses 1000 ms. Both post to the
  same URL with the same headers and the same protocol address; the two bodies are
  never equal.
\<close>

theorem variants_differ:
  "posted (fst (listNFT cfg ce w n p)) =
     (case parseEther p of
        Inl _ \<Rightarrow> []
      | Inr priceInWei \<Rightarrow>
          (case signTypedData ce w domain types
                  (JObject (order_fields (orderComponents cfg ce w n priceInWei))) of
             Inl _ \<Rightarrow> []
           | Inr signature \<Rightarrow>
               [(listings_url,
                 payload (order_fields (orderComponents cfg ce w n priceInWei)) signature,
                 post_headers cfg)]))
   \<and> (\<exists>cs. posted (fst (mainjs_listNFT cfg ce w n p)) =
          (case signTypedData ce w domain (JObject []) (JObject cs) of
             Inl _ \<Rightarrow> []
           | Inr signature \<Rightarrow> [(listings_url, mainjs_body cs signature, post_headers cfg)]))
   \<and> payload cs sg =
        JObject [(''parameters'', JObject (cs @ [(''signature'', JString sg)])),
                 (''protocol_address'', JString SEAPORT_CONTRACT_ADDRESS)]
   \<and> mainjs_body cs sg =
        JObject (cs @ [(''signature'', JString sg),
                       (''protocol_address'', JString SEAPORT_CONTRACT_ADDRESS)])
   \<and> payload cs sg \<noteq> mainjs_body cs' sg'
   \<and> (wallet_accepted cfg wd i \<longrightarrow>
        delays (fst (process_wallet cfg wd i)) = replicate (matching_tokens cfg wd i) 2000
        \<and> delays (fst (mainjs_process_wallet cfg wd i)) = replicate (matching_tokens cfg wd i) 1000)"
proof (intro conjI impI)
  show "\<exists>cs. posted (fst (mainjs_listNFT cfg ce w n p)) =
          (case signTypedData ce w domain (JObject []) (JObject cs) of
             Inl _ \<Rightarrow> []
           | Inr signature \<Rightarrow> [(listings_url, mainjs_body cs signature, post_headers cfg)])"
    using mainjs_listNFT_posted by blast
qed (simp_all add: listNFT_posted bodies_differ process_wallet_delays mainjs_process_wallet_delays
       payload_def mainjs_body_def)

theorem variants_differ_witness:
  "wallet_accepted example_config example_world (Suc 0)
   \<and> delays (fst (process_wallet example_config example_world (Suc 0))) = [2000, 2000]
   \<and> delays (fst (mainjs_process_wallet example_config example_world (Suc 0))) = [1000, 1000]"
  using variants_differ [of example_config _ _ _ _ _ _ _ _ example_world "Suc 0"]
    example_wallet_accepted
  by (simp add: example_matching)

text \<open>
  Claim C8 as stated fails: for the same configuration, wallet and token the two
  variants post different bodies, and for the same wallet they pause 2000 ms and
  1000 ms.
\<close>

theorem variants_not_equivalent:
  "posted (fst (listNFT example_config example_call_env example_wallet example_nft ''0.01''))
     \<noteq> posted (fst (mainjs_listNFT example_config example_call_env example_wallet example_nft ''0.01''))
   \<and> delays (fst (process_wallet example_config example_world (Suc 0))) = [2000, 2000]
   \<and> delays (fst (mainjs_process_wallet example_config example_world (Suc 0))) = [1000, 1000]"
  by (simp add: listNFT_posted mainjs_listNFT_posted parseEther_example example_call_env_def
      bodies_differ process_wallet_delays mainjs_process_wallet_delays example_wallet_accepted
      example_matching)

section \<open>Price conversion: facts and the claim\<close>

lemma of_char_digit_char: "d < 10 \<Longrightarrow> (of_char (digit_char d) :: nat) = 48 + d"
  by (simp add: digit_char_def)

lemma is_dec_digit_digit_char: "d < 10 \<Longrightarrow> is_dec_digit (digit_char d)"
  by (simp add: is_dec_digit_def of_char_digit_char)

lemma digit_not_point: "is_dec_digit c \<Longrightarrow> c \<noteq> CHR ''.''"
  by (auto simp: is_dec_digit_def)

lemma digit_not_minus: "is_dec_digit c \<Longrightarrow> c \<noteq> CHR ''-''"
  by (auto simp: is_dec_digit_def)

lemma dec_val_Nil [simp]: "dec_val [] = 0"
  by (simp add: dec_val_def)

lemma dec_val_snoc: "dec_val (xs @ [c]) = dec_val xs * 10 + ((of_char c :: nat) - 48)"
  by (simp add: dec_val_def)

lemma dec_val_append: "dec_val (xs @ ys) = dec_val xs * 10 ^ length ys + dec_val ys"
proof (induction ys rule: rev_induct)
  case Nil
  then show ?case by simp
next
  case (snoc y ys)
  have "dec_val (xs @ ys @ [y]) = dec_val ((xs @ ys) @ [y])" by simp
  also have "\<dots> = dec_val (xs @ ys) * 10 + ((of_char y :: nat) - 48)" by (rule dec_val_snoc)
  finally show ?case by (simp add: snoc dec_val_snoc algebra_simps)
qed

lemma dec_val_zeros: "dec_val (replicate k (CHR ''0'')) = 0"
proof (induction k)
  case 0
  then show ?case by simp
next
  case (Suc k)
  have "replicate (Suc k) (CHR ''0'') = replicate k (CHR ''0'') @ [CHR ''0'']"
    by (simp add: replicate_append_same)
  then show ?case by (simp only: dec_val_snoc Suc) simp
qed

lemma decimal_nonempty: "decimal n \<noteq> []"
  by (subst decimal.simps) simp

lemma decimal_digits: "list_all is_dec_digit (decimal n)"
proof (induction n rule: decimal.induct)
  case (1 n)
  show ?case
  proof (cases "n < 10")
    case True
    then show ?thesis by (subst decimal.simps) (simp add: is_dec_digit_digit_char)
  next
    case False
    then show ?thesis using 1 by (subst decimal.simps) (simp add: is_dec_digit_digit_char)
  qed
qed

lemma dec_val_decimal: "dec_val (decimal n) = n"
proof (induction n rule: decimal.induct)
  case (1 n)
  show ?case
  proof (cases "n < 10")
    case True
    have "dec_val ([] @ [digit_char n]) = n"
      using True by (simp only: dec_val_snoc) (simp add: of_char_digit_char)
    then show ?thesis using True by (subst decimal.simps) simp
  next
    case False
    have "dec_val (decimal (n div 10) @ [digit_char (n mod 10)]) = n div 10 * 10 + n mod 10"
      using 1 False by (simp only: dec_val_snoc) (simp add: of_char_digit_char)
    then show ?thesis using False by (subst decimal.simps) simp
  qed
qed

lemma length_decimal: "0 < k \<Longrightarrow> n < 10 ^ k \<Longrightarrow> length (decimal n) \<le> k"
proof (induction n arbitrary: k rule: decimal.induct)
  case (1 n)
  show ?case
  proof (cases "n < 10")
    case True
    then show ?thesis using "1.prems" by (subst decimal.simps) simp
  next
    case False
    obtain k' where k1: "k = Suc k'" using "1.prems" by (cases k) auto
    have "k' \<noteq> 0"
    proof
      assume "k' = 0"
      then have "n < 10" using "1.prems" k1 by simp
      then show False using False by simp
    qed
    then have k': "k = Suc k'" "0 < k'" using k1 by auto
    have "n div 10 < 10 ^ k'" using "1.prems" k' by (simp add: less_mult_imp_div_less mult.commute)
    then have "length (decimal (n div 10)) \<le> k'" using 1 False k' by simp
    then show ?thesis using False k' by (subst decimal.simps) simp
  qed
qed

lemma js_split_no_sep: "sep \<notin> set v \<Longrightarrow> js_split sep v = [v]"
  by (induction v) auto

lemma js_split_sep: "sep \<notin> set w \<Longrightarrow> js_split sep (w @ sep # f) = w # js_split sep f"
  by (induction w) auto

lemma strip_zeros_decomp:
  "f = strip_zeros f @ replicate (length f - length (strip_zeros f)) (CHR ''0'')"
proof -
  let ?Z = "\<lambda>c. c = CHR ''0''"
  have "rev (takeWhile ?Z (rev f) @ dropWhile ?Z (rev f)) = f"
    by (simp only: takeWhile_dropWhile_id rev_rev_ident)
  then have f: "f = strip_zeros f @ rev (takeWhile ?Z (rev f))"
    by (simp only: rev_append strip_zeros_def)
  have "\<forall>y \<in> set (takeWhile ?Z (rev f)). y = CHR ''0''"
    by (auto dest: set_takeWhileD)
  then have "replicate (length (takeWhile ?Z (rev f))) (CHR ''0'') = takeWhile ?Z (rev f)"
    by (rule replicate_length_same)
  then have r: "rev (takeWhile ?Z (rev f)) = replicate (length (takeWhile ?Z (rev f))) (CHR ''0'')"
    by (metis rev_replicate)
  have "length f = length (strip_zeros f @ rev (takeWhile ?Z (rev f)))"
    by (rule arg_cong [OF f])
  then have "length (takeWhile ?Z (rev f)) = length f - length (strip_zeros f)"
    by simp
  then show ?thesis using f r by (simp only:)
qed

lemma length_strip_zeros: "length (strip_zeros f) \<le> length f"
  using length_dropWhile_le [of "\<lambda>c. c = CHR ''0''" "rev f"] by (simp add: strip_zeros_def)

lemma strip_zeros_digits: "list_all is_dec_digit f \<Longrightarrow> list_all is_dec_digit (strip_zeros f)"
  by (auto simp: strip_zeros_def list_all_iff dest: set_dropWhileD)

lemma frac_value_zeros: "frac_value (f @ replicate k (CHR ''0'')) = frac_value f"
  by (simp add: frac_value_def dec_val_append dec_val_zeros power_add)

lemma frac_value_strip: "frac_value (strip_zeros f) = frac_value f"
  using frac_value_zeros [of "strip_zeros f" "length f - length (strip_zeros f)"]
    strip_zeros_decomp [of f] by simp

lemma frac_value_scaled:
  assumes "length f \<le> k"
  shows "frac_value f * 10 ^ k = of_nat (dec_val f * 10 ^ (k - length f))"
proof -
  have "(10::rat) ^ k = 10 ^ (length f + (k - length f))" using assms by simp
  also have "\<dots> = 10 ^ length f * 10 ^ (k - length f)" by (rule power_add)
  finally have e: "(10::rat) ^ k = 10 ^ length f * 10 ^ (k - length f)" .
  show ?thesis unfolding e by (simp add: frac_value_def)
qed

lemma unsigned_split:
  "unsigned_text s = whole_part s \<or> unsigned_text s = whole_part s @ CHR ''.'' # fraction_part s"
proof -
  let ?P = "\<lambda>c. c \<noteq> CHR ''.''"
  have v: "takeWhile ?P (unsigned_text s) @ dropWhile ?P (unsigned_text s) = unsigned_text s"
    by (rule takeWhile_dropWhile_id)
  show ?thesis
  proof (cases "dropWhile ?P (unsigned_text s)")
    case Nil
    have "whole_part s = unsigned_text s"
      using v unfolding Nil whole_part_def by (simp only: append_Nil2)
    then show ?thesis by (simp only:) blast
  next
    case (Cons c r)
    have "dropWhile ?P (unsigned_text s) \<noteq> []" unfolding Cons by blast
    then have "\<not> ?P (hd (dropWhile ?P (unsigned_text s)))" by (rule hd_dropWhile)
    then have c: "c = CHR ''.''" unfolding Cons by simp
    have "fraction_part s = r" unfolding fraction_part_def Cons by simp
    then have "unsigned_text s = whole_part s @ CHR ''.'' # fraction_part s"
      using v unfolding Cons whole_part_def c by (simp only:)
    then show ?thesis by blast
  qed
qed

lemma no_point_fraction:
  assumes "unsigned_text s = whole_part s"
  shows "fraction_part s = []"
proof -
  let ?P = "\<lambda>c. c \<noteq> CHR ''.''"
  have t: "takeWhile ?P (unsigned_text s) = unsigned_text s"
    using assms [symmetric] unfolding whole_part_def .
  have "dropWhile ?P (unsigned_text s) = []"
    using t takeWhile_dropWhile_id [of ?P "unsigned_text s"] by (metis append_self_conv)
  then show ?thesis unfolding fraction_part_def by (simp only: drop_Nil)
qed

lemma digits_no_point: "list_all is_dec_digit xs \<Longrightarrow> CHR ''.'' \<notin> set xs"
  by (auto simp: list_all_iff dest: digit_not_point)

lemma parseEther_unfold:
  "parseEther s =
     (if unsigned_text s = []
         \<or> \<not> list_all (\<lambda>c. is_dec_digit c \<or> c = CHR ''.'') (unsigned_text s)
      then Inl (error ''invalid decimal value'')
      else if unsigned_text s = ''.'' then Inl (error ''missing value'')
      else (case js_split (CHR ''.'') (unsigned_text s) of
              [whole] \<Rightarrow> Inr ((if is_negative s then - 1 else 1) * (int (dec_val whole) * 10 ^ 18))
            | [whole, fraction] \<Rightarrow>
                if length (strip_zeros fraction) > 18
                then Inl (error ''fractional component exceeds decimals'')
                else Inr ((if is_negative s then - 1 else 1)
                          * (int (dec_val whole) * 10 ^ 18
                             + int (dec_val (strip_zeros fraction))
                               * 10 ^ (18 - length (strip_zeros fraction))))
            | _ \<Rightarrow> Inl (error ''too many decimal points'')))"
  unfolding parseEther_def unsigned_text_def is_negative_def Let_def
  by (rule refl)

lemma parseEther_well_formed:
  assumes "well_formed_decimal s"
  shows "parseEther s =
     (if 18 < decimal_places s then Inl (error ''fractional component exceeds decimals'')
      else Inr ((if is_negative s then - 1 else 1) *
                (int (dec_val (whole_part s)) * 10 ^ 18
                 + int (dec_val (strip_zeros (fraction_part s)))
                   * 10 ^ (18 - decimal_places s))))"
proof -
  let ?v = "unsigned_text s" and ?w = "whole_part s" and ?f = "fraction_part s"
  from assms have v: "?v \<noteq> []" "?v \<noteq> ''.''" and w: "list_all is_dec_digit ?w"
    and f: "list_all is_dec_digit ?f"
    by (simp_all add: well_formed_decimal_def)
  have chars: "list_all (\<lambda>c. is_dec_digit c \<or> c = CHR ''.'') ?v"
    using unsigned_split [of s] w f by (auto simp: list_all_iff)
  from unsigned_split [of s] show ?thesis
  proof
    assume a: "?v = ?w"
    have "js_split (CHR ''.'') ?w = [?w]"
      by (rule js_split_no_sep [OF digits_no_point [OF w]])
    then have j: "js_split (CHR ''.'') ?v = [?w]" using a by (simp only:)
    have e: "?f = []" using a by (rule no_point_fraction)
    show ?thesis
      unfolding parseEther_unfold j decimal_places_def e
      using v chars by (simp add: strip_zeros_def)
  next
    assume b: "?v = ?w @ CHR ''.'' # ?f"
    have "js_split (CHR ''.'') (?w @ CHR ''.'' # ?f) = ?w # js_split (CHR ''.'') ?f"
      by (rule js_split_sep [OF digits_no_point [OF w]])
    also have "js_split (CHR ''.'') ?f = [?f]"
      by (rule js_split_no_sep [OF digits_no_point [OF f]])
    finally have j: "js_split (CHR ''.'') ?v = [?w, ?f]" using b by (simp only:)
    show ?thesis
      unfolding parseEther_unfold j decimal_places_def
      using v chars by simp
  qed
qed

lemma dec_value_frac:
  "dec_value s = (if is_negative s then - 1 else 1) *
     (of_nat (dec_val (whole_part s)) + frac_value (fraction_part s))"
  by (simp add: dec_value_def frac_value_def)

lemma parse_exact:
  assumes "well_formed_decimal s" and "decimal_places s \<le> 18"
  shows "\<exists>wei. parseEther s = Inr wei \<and> of_int wei = dec_value s * 10 ^ 18"
proof -
  let ?f = "strip_zeros (fraction_part s)"
  let ?wei = "(if is_negative s then - 1 else 1) *
                (int (dec_val (whole_part s)) * 10 ^ 18
                 + int (dec_val ?f) * 10 ^ (18 - decimal_places s))"
  have p: "parseEther s = Inr ?wei"
    using parseEther_well_formed [OF assms(1)] assms(2) by simp
  have l: "length ?f \<le> 18" using assms(2) by (simp add: decimal_places_def)
  have "frac_value (fraction_part s) * 10 ^ 18 = frac_value ?f * 10 ^ 18"
    by (simp only: frac_value_strip)
  also have "\<dots> = of_nat (dec_val ?f * 10 ^ (18 - length ?f))"
    by (rule frac_value_scaled [OF l])
  finally have fr: "frac_value (fraction_part s) * 10 ^ 18
      = of_nat (dec_val ?f * 10 ^ (18 - decimal_places s))"
    by (simp only: decimal_places_def)
  have "(of_int ?wei :: rat) = (if is_negative s then - 1 else 1) *
      (of_nat (dec_val (whole_part s)) * 10 ^ 18
       + of_nat (dec_val ?f * 10 ^ (18 - decimal_places s)))"
    by simp
  also have "\<dots> = (if is_negative s then - 1 else 1) *
      (of_nat (dec_val (whole_part s)) * 10 ^ 18 + frac_value (fraction_part s) * 10 ^ 18)"
    by (simp only: fr)
  also have "\<dots> = dec_value s * 10 ^ 18"
    by (simp only: dec_value_frac distrib_right mult.assoc)
  finally show ?thesis using p by blast
qed

lemma parse_rejects:
  assumes "well_formed_decimal s" and "18 < decimal_places s"
  shows "parseEther s = Inl (error ''fractional component exceeds decimals'')"
  using parseEther_well_formed [OF assms(1)] assms(2) by simp

lemma formatEther_shape:
  "formatEther wei =
     (if wei < 0 then ''-'' else []) @ format_whole wei @ CHR ''.'' # format_fraction wei"
  by (simp add: formatEther_def Let_def format_whole_def format_padded_def format_fraction_def)

lemma format_whole_digits: "list_all is_dec_digit (format_whole wei)" "format_whole wei \<noteq> []"
  by (simp_all add: format_whole_def decimal_digits decimal_nonempty)

lemma length_format_padded: "length (format_padded wei) = 18"
proof -
  have "nat \<bar>wei\<bar> mod 10 ^ 18 < 10 ^ 18" by simp
  then have "length (decimal (nat \<bar>wei\<bar> mod 10 ^ 18)) \<le> 18"
    by (intro length_decimal) simp_all
  then show ?thesis by (simp add: format_padded_def)
qed

lemma zero_digit: "is_dec_digit (CHR ''0'')"
  by (simp add: is_dec_digit_def)

lemma zeros_digits: "list_all is_dec_digit (replicate k (CHR ''0''))"
  by (induction k) (simp_all add: zero_digit)

lemma dec_val_zero_digit: "dec_val ''0'' = 0"
  by (simp add: dec_val_def)

lemma format_padded_digits: "list_all is_dec_digit (format_padded wei)"
  by (simp add: format_padded_def decimal_digits zeros_digits)

lemma dec_val_format_padded: "dec_val (format_padded wei) = nat \<bar>wei\<bar> mod 10 ^ 18"
  by (simp add: format_padded_def dec_val_append dec_val_zeros dec_val_decimal)

lemma format_fraction_digits: "list_all is_dec_digit (format_fraction wei)"
  by (simp add: format_fraction_def strip_zeros_digits format_padded_digits zero_digit)

lemma length_format_fraction: "length (format_fraction wei) \<le> 18"
  using length_strip_zeros [of "format_padded wei"]
  by (simp add: format_fraction_def length_format_padded)

lemma frac_value_format_fraction:
  "frac_value (format_fraction wei) = of_nat (nat \<bar>wei\<bar> mod 10 ^ 18) / 10 ^ 18"
proof -
  have "frac_value (format_fraction wei) = frac_value (strip_zeros (format_padded wei))"
    by (simp add: format_fraction_def frac_value_def dec_val_zero_digit)
  also have "\<dots> = frac_value (format_padded wei)" by (rule frac_value_strip)
  also have "\<dots> = of_nat (nat \<bar>wei\<bar> mod 10 ^ 18) / 10 ^ 18"
    by (simp add: frac_value_def dec_val_format_padded length_format_padded)
  finally show ?thesis .
qed

lemma format_sign: "is_negative (formatEther wei) \<longleftrightarrow> wei < 0"
proof (cases "wei < 0")
  case True
  then show ?thesis by (simp add: formatEther_shape is_negative_def)
next
  case False
  obtain c cs where c: "format_whole wei = c # cs"
    using format_whole_digits(2) [of wei] by (cases "format_whole wei") auto
  then have "is_dec_digit c" using format_whole_digits(1) [of wei] by simp
  then have "c \<noteq> CHR ''-''" by (rule digit_not_minus)
  then show ?thesis using False by (simp add: formatEther_shape is_negative_def c)
qed

lemma format_unsigned:
  "unsigned_text (formatEther wei) = format_whole wei @ CHR ''.'' # format_fraction wei"
  unfolding unsigned_text_def format_sign by (simp add: formatEther_shape)

lemma format_whole_part: "whole_part (formatEther wei) = format_whole wei"
proof -
  have "CHR ''.'' \<notin> set (format_whole wei)"
    by (rule digits_no_point [OF format_whole_digits(1)])
  then have "\<forall>x \<in> set (format_whole wei). x \<noteq> CHR ''.''" by blast
  then show ?thesis
    unfolding whole_part_def format_unsigned by (simp add: takeWhile_append2)
qed

lemma format_fraction_part: "fraction_part (formatEther wei) = format_fraction wei"
proof -
  have "CHR ''.'' \<notin> set (format_whole wei)"
    by (rule digits_no_point [OF format_whole_digits(1)])
  then have "\<forall>x \<in> set (format_whole wei). x \<noteq> CHR ''.''" by blast
  then show ?thesis
    unfolding fraction_part_def format_unsigned by (simp add: dropWhile_append2)
qed

lemma format_well_formed: "well_formed_decimal (formatEther wei)"
  unfolding well_formed_decimal_def format_whole_part format_fraction_part format_unsigned
  using format_whole_digits [of wei] format_fraction_digits [of wei]
  by (cases "format_whole wei") simp_all

lemma format_places: "decimal_places (formatEther wei) \<le> 18"
  unfolding decimal_places_def format_fraction_part
  using length_strip_zeros [of "format_fraction wei"] length_format_fraction [of wei]
  by simp

lemma split_value:
  assumes "0 < (k::nat)"
  shows "(of_nat (a div k) :: rat) + of_nat (a mod k) / of_nat k = of_nat a / of_nat k"
proof -
  have "(of_nat a :: rat) = of_nat (a div k) * of_nat k + of_nat (a mod k)"
    by (metis div_mult_mod_eq of_nat_add of_nat_mult)
  then show ?thesis using assms by (simp add: field_simps)
qed

lemma split_value_18:
  "(of_nat (a div 10 ^ 18) :: rat) + of_nat (a mod 10 ^ 18) / 10 ^ 18 = of_nat a / 10 ^ 18"
  using split_value [of "10 ^ 18" a] by simp

lemma signed_magnitude:
  "(if wei < 0 then - 1 else 1) * (of_nat (nat \<bar>wei\<bar>) / 10 ^ 18) = (of_int wei :: rat) / 10 ^ 18"
  by (cases "wei < 0") simp_all

lemma format_value: "dec_value (formatEther wei) = of_int wei / 10 ^ 18"
  unfolding dec_value_frac format_sign format_whole_part format_fraction_part
    frac_value_format_fraction format_whole_def dec_val_decimal split_value_18
  by (rule signed_magnitude)

lemma format_then_parse: "parseEther (formatEther wei) = Inr wei"
proof -
  obtain w where w: "parseEther (formatEther wei) = Inr w"
    "(of_int w :: rat) = dec_value (formatEther wei) * 10 ^ 18"
    using parse_exact [OF format_well_formed format_places] by blast
  have "(of_int w :: rat) = of_int wei" using w(2) by (simp add: format_value)
  then have "w = wei" by simp
  then show ?thesis using w(1) by simp
qed

lemmas decimal_text_defs = well_formed_decimal_def unsigned_text_def is_negative_def
  whole_part_def fraction_part_def is_dec_digit_def decimal_places_def strip_zeros_def

text \<open>
  Claim C4. A decimal text with at most 18 decimal places is converted to the integer
  that is exactly its value times \<open>10 ^ 18\<close>, and converting that integer back gives a
  text of the same value; a decimal text with more than 18 decimal places is rejected;
  and every integer amount survives the way to text and back.
\<close>

theorem price_round_trip:
  "(well_formed_decimal s \<and> decimal_places s \<le> 18 \<longrightarrow>
      (\<exists>wei. parseEther s = Inr wei
         \<and> of_int wei = dec_value s * 10 ^ 18
         \<and> dec_value (formatEther wei) = dec_value s))
   \<and> (well_formed_decimal s \<and> 18 < decimal_places s \<longrightarrow>
      parseEther s = Inl (error ''fractional component exceeds decimals''))
   \<and> parseEther (formatEther w) = Inr w"
proof (intro conjI impI)
  assume a: "well_formed_decimal s \<and> decimal_places s \<le> 18"
  then obtain wei where wei: "parseEther s = Inr wei" "(of_int wei :: rat) = dec_value s * 10 ^ 18"
    using parse_exact by blast
  have "dec_value (formatEther wei) = dec_value s"
    by (simp add: format_value wei(2))
  then show "\<exists>wei. parseEther s = Inr wei
         \<and> of_int wei = dec_value s * 10 ^ 18
         \<and> dec_value (formatEther wei) = dec_value s"
    using wei by blast
next
  assume "well_formed_decimal s \<and> 18 < decimal_places s"
  then show "parseEther s = Inl (error ''fractional component exceeds decimals'')"
    by (simp add: parse_rejects)
next
  show "parseEther (formatEther w) = Inr w" by (rule format_then_parse)
qed

theorem price_round_trip_witness:
  "well_formed_decimal ''0.01'' \<and> decimal_places ''0.01'' \<le> 18
   \<and> (\<exists>wei. parseEther ''0.01'' = Inr wei
         \<and> of_int wei = dec_value ''0.01'' * 10 ^ 18
         \<and> dec_value (formatEther wei) = dec_value ''0.01'')
   \<and> well_formed_decimal ''1.0000000000000000001''
   \<and> 18 < decimal_places ''1.0000000000000000001''
   \<and> parseEther ''1.0000000000000000001'' = Inl (error ''fractional component exceeds decimals'')
   \<and> parseEther (formatEther 10000000000000000) = Inr 10000000000000000"
proof -
  have a: "well_formed_decimal ''0.01''" "decimal_places ''0.01'' \<le> 18"
    by (simp_all add: decimal_text_defs)
  have b: "well_formed_decimal ''1.0000000000000000001''"
    "18 < decimal_places ''1.0000000000000000001''"
    by (simp_all add: decimal_text_defs)
  show ?thesis
    using price_round_trip [of "''0.01''" 10000000000000000]
      price_round_trip [of "''1.0000000000000000001''" 0] a b
    by blast
qed

section \<open>Claims about the listing window\<close>

lemma parseInt_abc: "parseInt ''abc'' = NaN"
  by (simp add: parseInt_defs)

lemma validate_unparsed:
  "validate unparsed_duration_environment = Started unparsed_duration_config"
  by (simp add: validate_def unparsed_duration_environment_def unparsed_duration_config_def
      example_environment_def example_config_def falsy_def str_of_def parse_lines_defs)

lemma validate_ignores_duration:
  assumes "validate env = Started cfg" and "dur \<noteq> []"
  shows "validate (env\<lparr>env_LISTING_DURATION_MINUTES := Some dur\<rparr>)
         = Started (cfg\<lparr>LISTING_DURATION_MINUTES := dur\<rparr>)"
  using assms
  by (auto simp: validate_def falsy_def str_of_def split: option.splits if_splits)

lemma example_signs:
  "signTypedData example_call_env w d t m = Inr ''0xsig''"
  by (simp add: example_call_env_def)

text \<open>
  Claim C5, as amended. The start time of every order is the clock reading in whole
  seconds. When \<open>parseInt\<close> reads the configured duration as the integer \<open>d\<close> (and
  the numbers stay where doubles are exact), the end time is the start time plus
  \<open>d * 60\<close> and their difference is \<open>d * 60\<close>. When \<open>parseInt\<close> gives \<open>NaN\<close>, the end
  time and the difference are \<open>NaN\<close>.
\<close>

theorem listing_window:
  "startTime (orderComponents cfg ce w n p) = Num (int (date_now ce div 1000))
   \<and> (parseInt (LISTING_DURATION_MINUTES cfg) = Num d
        \<and> \<bar>d * 60\<bar> \<le> 2 ^ 53
        \<and> \<bar>int (date_now ce div 1000) + d * 60\<bar> \<le> 2 ^ 53 \<longrightarrow>
        endTime (orderComponents cfg ce w n p) = Num (int (date_now ce div 1000) + d * 60)
        \<and> js_sub (endTime (orderComponents cfg ce w n p))
              (startTime (orderComponents cfg ce w n p)) = Num (d * 60))
   \<and> (parseInt (LISTING_DURATION_MINUTES cfg) = NaN \<longrightarrow>
        endTime (orderComponents cfg ce w n p) = NaN
        \<and> js_sub (endTime (orderComponents cfg ce w n p))
              (startTime (orderComponents cfg ce w n p)) = NaN)"
  by (simp add: orderComponents_def Let_def floor_seconds_def to_num_def)

theorem listing_window_witness:
  "parseInt (LISTING_DURATION_MINUTES example_config) = Num 30
   \<and> \<bar>(30::int) * 60\<bar> \<le> 2 ^ 53
   \<and> \<bar>int (date_now example_call_env div 1000) + 30 * 60\<bar> \<le> 2 ^ 53
   \<and> startTime (orderComponents example_config example_call_env example_wallet example_nft 5)
       = Num 1700000000
   \<and> endTime (orderComponents example_config example_call_env example_wallet example_nft 5)
       = Num 1700001800
   \<and> js_sub (endTime (orderComponents example_config example_call_env example_wallet example_nft 5))
        (startTime (orderComponents example_config example_call_env example_wallet example_nft 5))
       = Num 1800
   \<and> parseInt (LISTING_DURATION_MINUTES unparsed_duration_config) = NaN
   \<and> endTime (orderComponents unparsed_duration_config example_call_env example_wallet
        example_nft 5) = NaN"
proof -
  have d: "parseInt (LISTING_DURATION_MINUTES example_config) = Num 30"
    by (simp add: example_config_def parseInt_30)
  have b1: "\<bar>(30::int) * 60\<bar> \<le> 2 ^ 53" by simp
  have b2: "\<bar>int (date_now example_call_env div 1000) + 30 * 60\<bar> \<le> 2 ^ 53"
    by (simp add: example_now)
  have u: "parseInt (LISTING_DURATION_MINUTES unparsed_duration_config) = NaN"
    by (simp add: unparsed_duration_config_def parseInt_abc)
  have s: "startTime (orderComponents example_config example_call_env example_wallet example_nft 5)
       = Num (int (date_now example_call_env div 1000))"
    and e: "endTime (orderComponents example_config example_call_env example_wallet example_nft 5)
       = Num (int (date_now example_call_env div 1000) + 30 * 60)"
    and j: "js_sub (endTime (orderComponents example_config example_call_env example_wallet example_nft 5))
        (startTime (orderComponents example_config example_call_env example_wallet example_nft 5))
       = Num (30 * 60)"
    using listing_window [of example_config example_call_env example_wallet example_nft 5 30]
      d b1 b2 by blast+
  have n: "endTime (orderComponents unparsed_duration_config example_call_env example_wallet
        example_nft 5) = NaN"
    using listing_window [of unparsed_duration_config example_call_env example_wallet
        example_nft 5 0] u by blast
  show ?thesis
    unfolding s e j n using d b1 b2 u by (simp add: example_now to_num_def)
qed

text \<open>
  Claim C5 as stated fails: the duration \<open>abc\<close> passes start-up validation, and the
  order built from it has the end time \<open>NaN\<close>, so that end time minus start time is
  no number of seconds.
\<close>

theorem unparsed_duration_window:
  "validate unparsed_duration_environment = Started unparsed_duration_config
   \<and> parseInt (LISTING_DURATION_MINUTES unparsed_duration_config) = NaN
   \<and> endTime (orderComponents unparsed_duration_config example_call_env example_wallet
        example_nft 10000000000000000) = NaN
   \<and> js_sub (endTime (orderComponents unparsed_duration_config example_call_env example_wallet
                example_nft 10000000000000000))
        (startTime (orderComponents unparsed_duration_config example_call_env example_wallet
                example_nft 10000000000000000)) = NaN"
  by (simp add: validate_unparsed orderComponents_def Let_def unparsed_duration_config_def
      parseInt_abc floor_seconds_def)

text \<open>
  Claim C6, as amended. No line checks the sign of the duration. Validation accepts
  every duration that is not empty. With the duration parsed to \<open>d\<close>, the end time
  of the order is after the start time exactly when \<open>d\<close> is positive, equal to it
  when \<open>d\<close> is zero and before it when \<open>d\<close> is negative. \<open>listNFT\<close> does not look
  at the window: its result depends on the price conversion, the signer and the POST
  only, and whenever the signer returns a signature for the order, that order is
  posted.
\<close>

theorem window_follows_sign:
  "(validate env = Started cfg0 \<and> dur \<noteq> [] \<longrightarrow>
      validate (env\<lparr>env_LISTING_DURATION_MINUTES := Some dur\<rparr>)
        = Started (cfg0\<lparr>LISTING_DURATION_MINUTES := dur\<rparr>))
   \<and> (parseInt (LISTING_DURATION_MINUTES cfg) = Num d
        \<and> \<bar>d * 60\<bar> \<le> 2 ^ 53
        \<and> \<bar>int (date_now ce div 1000) + d * 60\<bar> \<le> 2 ^ 53 \<longrightarrow>
        (\<exists>s e. startTime (orderComponents cfg ce w n wei) = Num s
           \<and> endTime (orderComponents cfg ce w n wei) = Num e
           \<and> (s < e \<longleftrightarrow> 0 < d) \<and> (s = e \<longleftrightarrow> d = 0) \<and> (e < s \<longleftrightarrow> d < 0)))
   \<and> snd (listNFT cfg ce w n p) = Inr (listing_failure cfg ce w n p = None)
   \<and> (parseEther p = Inr wei
        \<and> signTypedData ce w domain types
              (JObject (order_fields (orderComponents cfg ce w n wei))) = Inr sg \<longrightarrow>
        posted (fst (listNFT cfg ce w n p))
          = [(listings_url, payload (order_fields (orderComponents cfg ce w n wei)) sg,
              post_headers cfg)])"
proof (intro conjI impI)
  assume "validate env = Started cfg0 \<and> dur \<noteq> []"
  then show "validate (env\<lparr>env_LISTING_DURATION_MINUTES := Some dur\<rparr>)
        = Started (cfg0\<lparr>LISTING_DURATION_MINUTES := dur\<rparr>)"
    by (simp add: validate_ignores_duration)
next
  assume "parseInt (LISTING_DURATION_MINUTES cfg) = Num d
        \<and> \<bar>d * 60\<bar> \<le> 2 ^ 53
        \<and> \<bar>int (date_now ce div 1000) + d * 60\<bar> \<le> 2 ^ 53"
  then show "\<exists>s e. startTime (orderComponents cfg ce w n wei) = Num s
           \<and> endTime (orderComponents cfg ce w n wei) = Num e
           \<and> (s < e \<longleftrightarrow> 0 < d) \<and> (s = e \<longleftrightarrow> d = 0) \<and> (e < s \<longleftrightarrow> d < 0)"
    by (simp add: orderComponents_def Let_def floor_seconds_def to_num_def)
next
  show "snd (listNFT cfg ce w n p) = Inr (listing_failure cfg ce w n p = None)"
    by (rule listNFT_result)
next
  assume "parseEther p = Inr wei
        \<and> signTypedData ce w domain types
              (JObject (order_fields (orderComponents cfg ce w n wei))) = Inr sg"
  then show "posted (fst (listNFT cfg ce w n p))
          = [(listings_url, payload (order_fields (orderComponents cfg ce w n wei)) sg,
              post_headers cfg)]"
    by (simp add: listNFT_posted)
qed

theorem window_follows_sign_witness:
  "validate example_environment = Started example_config
   \<and> validate zero_duration_environment = Started zero_duration_config
   \<and> parseInt (LISTING_DURATION_MINUTES zero_duration_config) = Num 0
   \<and> (\<exists>s e. startTime (orderComponents zero_duration_config example_call_env example_wallet
                  example_nft 10000000000000000) = Num s
       \<and> endTime (orderComponents zero_duration_config example_call_env example_wallet
                  example_nft 10000000000000000) = Num e
       \<and> s = e)
   \<and> parseEther ''0.01'' = Inr 10000000000000000
   \<and> posted (fst (listNFT zero_duration_config example_call_env example_wallet example_nft ''0.01''))
       = [(listings_url,
           payload (order_fields (orderComponents zero_duration_config example_call_env
                                    example_wallet example_nft 10000000000000000)) ''0xsig'',
           post_headers zero_duration_config)]"
proof -
  note v = validate_example
  have z: "''0'' \<noteq> []" by simp
  have d: "parseInt (LISTING_DURATION_MINUTES zero_duration_config) = Num 0"
    by (simp add: zero_duration_config_def parseInt_0)
  have b1: "\<bar>(0::int) * 60\<bar> \<le> 2 ^ 53" by simp
  have b2: "\<bar>int (date_now example_call_env div 1000) + 0 * 60\<bar> \<le> 2 ^ 53"
    by (simp add: example_now)
  note pe = parseEther_example
  have sg: "signTypedData example_call_env example_wallet domain types
              (JObject (order_fields (orderComponents zero_duration_config example_call_env
                 example_wallet example_nft 10000000000000000))) = Inr ''0xsig''"
    by (rule example_signs)
  note t = window_follows_sign [of example_environment example_config "''0''"
      zero_duration_config 0 example_call_env example_wallet example_nft 10000000000000000
      "''0.01''" "''0xsig''"]
  have v0: "validate (example_environment\<lparr>env_LISTING_DURATION_MINUTES := Some ''0''\<rparr>)
        = Started (example_config\<lparr>LISTING_DURATION_MINUTES := ''0''\<rparr>)"
    using t v z by blast
  have w: "\<exists>s e. startTime (orderComponents zero_duration_config example_call_env example_wallet
                  example_nft 10000000000000000) = Num s
       \<and> endTime (orderComponents zero_duration_config example_call_env example_wallet
                  example_nft 10000000000000000) = Num e
       \<and> s = e"
    using t d b1 b2 by blast
  have p: "posted (fst (listNFT zero_duration_config example_call_env example_wallet example_nft ''0.01''))
       = [(listings_url,
           payload (order_fields (orderComponents zero_duration_config example_call_env
                                    example_wallet example_nft 10000000000000000)) ''0xsig'',
           post_headers zero_duration_config)]"
    using t pe sg by blast
  show ?thesis
    using v v0 d w pe p
    by (simp only: zero_duration_environment_def zero_duration_config_def simp_thms)
qed

text \<open>
  Claim C6 as stated fails: the duration \<open>0\<close> passes start-up validation with no
  error reported, and the order built from it has its end time equal to its start
  time.
\<close>

theorem zero_duration_accepted:
  "validate zero_duration_environment = Started zero_duration_config
   \<and> startTime (orderComponents zero_duration_config example_call_env example_wallet example_nft
        10000000000000000) = Num 1700000000
   \<and> endTime (orderComponents zero_duration_config example_call_env example_wallet example_nft
        10000000000000000) = Num 1700000000"
  by (simp add: validate_zero_duration
      orderComponents_def Let_def zero_duration_config_def parseInt_0 floor_seconds_def
      to_num_def example_now)

end
